theory Spec2Isabelle
  imports Complex_Main
begin

section \<open>FatPressor: the compressor's DSP chain\<close>

text \<open>
  A shallow embedding of the DSP classes of FatPressor (GainComputer, EnvelopeFollower,
  SidechainDetector, TubeSaturation, TransformerColoration) and of
  \<^verbatim>\<open>FatPressorAudioProcessor::processBlock\<close>.

  Numbers: there are two models. In the first the C++ \<^verbatim>\<open>float\<close> and
  \<^verbatim>\<open>double\<close> are \<^typ>\<open>real\<close>, so every arithmetic operation is exact:
  rounding, overflow to infinity and NaN are outside it. It carries the properties that
  hold of the code up to rounding. The second model (the names with the suffix \<open>32\<close>)
  has \<^verbatim>\<open>float\<close> as IEEE 754 binary32, with rounding to nearest, the infinities and
  NaN; it carries the properties that rounding or overflow decide. The C++ \<^verbatim>\<open>int\<close> values that are never negative
  (window size, write index, sample and channel counts and indices) are modelled as
  \<^typ>\<open>nat\<close>, the step counts of a smoother as \<^typ>\<open>int\<close>; none of them comes near the
  range of a 32-bit integer at the sample rates and block sizes of audio.
  Each class is a record of its data members, each member function a function from the
  object (and its arguments) to the updated object (and its result). Members of the same
  name in several classes carry the class as a prefix (\<open>sd_\<close>, \<open>ef_\<close>, \<open>ts_\<close>, \<open>tc_\<close>,
  \<open>sv_\<close>).
\<close>

subsection \<open>Library functions of JUCE used by the classes\<close>

text \<open>\<^verbatim>\<open>juce::jmax (a, b)\<close> is \<^verbatim>\<open>a < b ? b : a\<close>.\<close>

definition jmax :: "real \<Rightarrow> real \<Rightarrow> real" where
  "jmax a b = (if a < b then b else a)"

text \<open>\<^verbatim>\<open>juce::jlimit (lo, hi, v)\<close> is \<^verbatim>\<open>v < lo ? lo : (hi < v ? hi : v)\<close>.\<close>

definition jlimit :: "real \<Rightarrow> real \<Rightarrow> real \<Rightarrow> real" where
  "jlimit lo hi v = (if v < lo then lo else if hi < v then hi else v)"

text \<open>
  \<^verbatim>\<open>juce::Decibels::gainToDecibels (gain, minusInfinityDb)\<close> is
  \<^verbatim>\<open>gain > 0 ? jmax (minusInfinityDb, log10 (gain) * 20) : minusInfinityDb\<close>, and
  \<^verbatim>\<open>juce::Decibels::decibelsToGain (dB, minusInfinityDb)\<close> is
  \<^verbatim>\<open>dB > minusInfinityDb ? pow (10, dB * 0.05) : 0\<close>; the default
  \<^verbatim>\<open>minusInfinityDb\<close> is -100.
\<close>

definition gainToDecibels :: "real \<Rightarrow> real \<Rightarrow> real" where
  "gainToDecibels gain minusInfinityDb =
     (if gain > 0 then jmax minusInfinityDb (log 10 gain * 20) else minusInfinityDb)"

definition decibelsToGain :: "real \<Rightarrow> real \<Rightarrow> real" where
  "decibelsToGain dB minusInfinityDb =
     (if dB > minusInfinityDb then 10 powr (dB * 0.05) else 0)"

definition defaultMinusInfinitydB :: real where
  "defaultMinusInfinitydB = -100"

subsection \<open>GainComputer\<close>

record GainComputer =
  threshold :: real
  ratio :: real
  kneeWidth :: real
  kneeStart :: real
  kneeEnd :: real

text \<open>The default member initialisers of the class.\<close>

definition GainComputer_init :: GainComputer where
  "GainComputer_init =
     \<lparr>threshold = -20, ratio = 4, kneeWidth = 6, kneeStart = -23, kneeEnd = -17\<rparr>"

definition updateKneeBounds :: "GainComputer \<Rightarrow> GainComputer" where
  "updateKneeBounds g =
     (let g1 = g\<lparr>kneeStart := threshold g - kneeWidth g * 0.5\<rparr>
      in g1\<lparr>kneeEnd := threshold g1 + kneeWidth g1 * 0.5\<rparr>)"

definition setThreshold :: "real \<Rightarrow> GainComputer \<Rightarrow> GainComputer" where
  "setThreshold thresholdDb g = updateKneeBounds (g\<lparr>threshold := thresholdDb\<rparr>)"

definition setRatio :: "real \<Rightarrow> GainComputer \<Rightarrow> GainComputer" where
  "setRatio newRatio g = g\<lparr>ratio := jmax 1 newRatio\<rparr>"

definition setKneeWidth :: "real \<Rightarrow> GainComputer \<Rightarrow> GainComputer" where
  "setKneeWidth kneeDb g = updateKneeBounds (g\<lparr>kneeWidth := jmax 0 kneeDb\<rparr>)"

text \<open>
  The three branches of \<^verbatim>\<open>computeGainReduction\<close>, each the value the branch
  assigns to \<^verbatim>\<open>outputDb\<close>.
\<close>

definition belowKneeOutput :: "GainComputer \<Rightarrow> real \<Rightarrow> real" where
  "belowKneeOutput g inputDb = inputDb"

definition aboveKneeOutput :: "GainComputer \<Rightarrow> real \<Rightarrow> real" where
  "aboveKneeOutput g inputDb = threshold g + (inputDb - threshold g) / ratio g"

definition inKneeOutput :: "GainComputer \<Rightarrow> real \<Rightarrow> real" where
  "inKneeOutput g inputDb =
     (let kneePosition = (inputDb - kneeStart g) / kneeWidth g;
          compressionAmount = kneePosition * kneePosition * 0.5;
          slope = 1 - (1 / ratio g)
      in inputDb - slope * compressionAmount * kneeWidth g)"

definition computeGainReduction :: "GainComputer \<Rightarrow> real \<Rightarrow> real" where
  "computeGainReduction g inputDb =
     (let outputDb =
            (if inputDb \<le> kneeStart g then belowKneeOutput g inputDb
             else if inputDb \<ge> kneeEnd g then aboveKneeOutput g inputDb
             else inKneeOutput g inputDb)
      in outputDb - inputDb)"

definition computeOutput :: "GainComputer \<Rightarrow> real \<Rightarrow> real" where
  "computeOutput g inputDb = inputDb + computeGainReduction g inputDb"

text \<open>
  The knee bounds are private and only written by \<^verbatim>\<open>updateKneeBounds\<close>, which
  both \<^verbatim>\<open>setThreshold\<close> and \<^verbatim>\<open>setKneeWidth\<close> call: they always are the
  threshold minus and plus half the knee width.
\<close>

definition knee_bounds_ok :: "GainComputer \<Rightarrow> bool" where
  "knee_bounds_ok g \<longleftrightarrow>
     kneeStart g = threshold g - kneeWidth g * 0.5 \<and>
     kneeEnd g = threshold g + kneeWidth g * 0.5"

subsection \<open>EnvelopeFollower\<close>

record EnvelopeFollower =
  ef_sampleRate :: real
  attackTimeMs :: real
  releaseTimeMs :: real
  envelope :: real
  peakGainReduction :: real
  inSlowRelease :: bool
  attackCoeff :: real
  releaseCoeffFast :: real
  releaseCoeffSlow :: real

definition fastReleaseRatio :: real where
  "fastReleaseRatio = 0.3"

definition slowReleaseRatio :: real where
  "slowReleaseRatio = 1.5"

definition releaseStageThreshold :: real where
  "releaseStageThreshold = 0.5"

definition EnvelopeFollower_init :: EnvelopeFollower where
  "EnvelopeFollower_init =
     \<lparr>ef_sampleRate = 44100, attackTimeMs = 10, releaseTimeMs = 100, envelope = 0,
      peakGainReduction = 0, inSlowRelease = False, attackCoeff = 0, releaseCoeffFast = 0,
      releaseCoeffSlow = 0\<rparr>"

definition ef_updateCoefficients :: "EnvelopeFollower \<Rightarrow> EnvelopeFollower" where
  "ef_updateCoefficients e =
     (if ef_sampleRate e \<le> 0 then e
      else
        (let attackTimeSec = attackTimeMs e / 1000;
             e1 = e\<lparr>attackCoeff := exp (- 1 / (ef_sampleRate e * attackTimeSec))\<rparr>;
             releaseTimeSec = releaseTimeMs e1 / 1000;
             fastReleaseTime = releaseTimeSec * fastReleaseRatio;
             e2 = e1\<lparr>releaseCoeffFast := exp (- 1 / (ef_sampleRate e1 * fastReleaseTime))\<rparr>;
             slowReleaseTime = releaseTimeSec * slowReleaseRatio
         in e2\<lparr>releaseCoeffSlow := exp (- 1 / (ef_sampleRate e2 * slowReleaseTime))\<rparr>))"

definition ef_reset :: "EnvelopeFollower \<Rightarrow> EnvelopeFollower" where
  "ef_reset e = e\<lparr>envelope := 0, peakGainReduction := 0, inSlowRelease := False\<rparr>"

definition ef_prepare :: "real \<Rightarrow> nat \<Rightarrow> EnvelopeFollower \<Rightarrow> EnvelopeFollower" where
  "ef_prepare newSampleRate samplesPerBlock e =
     ef_reset (ef_updateCoefficients (e\<lparr>ef_sampleRate := newSampleRate\<rparr>))"

definition setAttackMs :: "real \<Rightarrow> EnvelopeFollower \<Rightarrow> EnvelopeFollower" where
  "setAttackMs attackMs e =
     ef_updateCoefficients (e\<lparr>attackTimeMs := jlimit 0.1 100 attackMs\<rparr>)"

definition setReleaseMs :: "real \<Rightarrow> EnvelopeFollower \<Rightarrow> EnvelopeFollower" where
  "setReleaseMs releaseMs e =
     ef_updateCoefficients (e\<lparr>releaseTimeMs := jlimit 10 1000 releaseMs\<rparr>)"

text \<open>
  The release branch of \<^verbatim>\<open>processSample\<close> first decides the stage (the statement
  \<^verbatim>\<open>if (!inSlowRelease && envelope < peakGainReduction * releaseStageThreshold)
  inSlowRelease = true;\<close>), then picks the coefficient of the stage.
\<close>

definition updateReleaseStage :: "EnvelopeFollower \<Rightarrow> EnvelopeFollower" where
  "updateReleaseStage e =
     (if \<not> inSlowRelease e \<and> envelope e < peakGainReduction e * releaseStageThreshold
      then e\<lparr>inSlowRelease := True\<rparr> else e)"

definition releaseCoeff :: "EnvelopeFollower \<Rightarrow> real" where
  "releaseCoeff e = (if inSlowRelease e then releaseCoeffSlow e else releaseCoeffFast e)"

definition ef_processSample :: "real \<Rightarrow> EnvelopeFollower \<Rightarrow> EnvelopeFollower \<times> real" where
  "ef_processSample detectionDb e =
     (let detectionLinear = decibelsToGain detectionDb (- 60);
          e' =
            (if detectionLinear > envelope e
             then
               (let e1 = e\<lparr>envelope :=
                            attackCoeff e * envelope e + (1 - attackCoeff e) * detectionLinear\<rparr>;
                    e2 = e1\<lparr>peakGainReduction := envelope e1\<rparr>
                in e2\<lparr>inSlowRelease := False\<rparr>)
             else
               (let e1 = updateReleaseStage e;
                    rc = releaseCoeff e1
                in e1\<lparr>envelope := rc * envelope e1 + (1 - rc) * detectionLinear\<rparr>))
      in (e', gainToDecibels (envelope e') (- 60)))"

text \<open>\<^verbatim>\<open>processBlock\<close>: the samples one after the other.\<close>

fun ef_processBlock :: "real list \<Rightarrow> EnvelopeFollower \<Rightarrow> EnvelopeFollower \<times> real list" where
  "ef_processBlock [] e = (e, [])"
| "ef_processBlock (d # ds) e =
     (let (e1, y) = ef_processSample d e;
          (e2, ys) = ef_processBlock ds e1
      in (e2, y # ys))"

text \<open>
  What a call of \<^verbatim>\<open>processSample\<close> does, read off its branches: the attack branch,
  or the release branch with the fast or the slow coefficient. \<open>ef_phases\<close> lists it for
  every sample of a block, \<open>ef_states\<close> the object before each sample.
\<close>

datatype Phase = Attack | FastRelease | SlowRelease

definition ef_phase :: "real \<Rightarrow> EnvelopeFollower \<Rightarrow> Phase" where
  "ef_phase detectionDb e =
     (if decibelsToGain detectionDb (- 60) > envelope e then Attack
      else if inSlowRelease (updateReleaseStage e) then SlowRelease else FastRelease)"

fun ef_phases :: "real list \<Rightarrow> EnvelopeFollower \<Rightarrow> Phase list" where
  "ef_phases [] e = []"
| "ef_phases (d # ds) e = ef_phase d e # ef_phases ds (fst (ef_processSample d e))"

fun ef_states :: "real list \<Rightarrow> EnvelopeFollower \<Rightarrow> EnvelopeFollower list" where
  "ef_states [] e = []"
| "ef_states (d # ds) e = e # ef_states ds (fst (ef_processSample d e))"

text \<open>The coefficient a phase applies to the previous envelope.\<close>

definition phaseCoeff :: "Phase \<Rightarrow> EnvelopeFollower \<Rightarrow> real" where
  "phaseCoeff ph e =
     (case ph of Attack \<Rightarrow> attackCoeff e
               | FastRelease \<Rightarrow> releaseCoeffFast e
               | SlowRelease \<Rightarrow> releaseCoeffSlow e)"

subsection \<open>SidechainDetector\<close>

record SidechainDetector =
  sd_sampleRate :: real
  rmsBuffer :: "real list"
  rmsWindowSize :: nat
  rmsWriteIndex :: nat
  rmsSum :: real
  peakAttackCoeff :: real
  peakReleaseCoeff :: real
  peakEnvelope :: real
  rmsWeight :: real
  peakWeight :: real

text \<open>A default-constructed detector: the vector is empty.\<close>

definition SidechainDetector_init :: SidechainDetector where
  "SidechainDetector_init =
     \<lparr>sd_sampleRate = 44100, rmsBuffer = [], rmsWindowSize = 441, rmsWriteIndex = 0,
      rmsSum = 0, peakAttackCoeff = 0, peakReleaseCoeff = 0, peakEnvelope = 0,
      rmsWeight = 0.7, peakWeight = 0.3\<rparr>"

text \<open>
  \<^verbatim>\<open>static_cast<int>\<close> of a \<^verbatim>\<open>double\<close> truncates towards zero, and
  \<^verbatim>\<open>std::vector::resize (n, v)\<close> keeps the first \<open>n\<close> elements the vector has and
  appends copies of \<open>v\<close> up to the length \<open>n\<close>.
\<close>

definition static_cast_int :: "real \<Rightarrow> int" where
  "static_cast_int x = (if 0 \<le> x then \<lfloor>x\<rfloor> else \<lceil>x\<rceil>)"

definition vector_resize :: "nat \<Rightarrow> 'a \<Rightarrow> 'a list \<Rightarrow> 'a list" where
  "vector_resize n v xs = take n xs @ replicate (n - length xs) v"

definition sd_prepare :: "real \<Rightarrow> nat \<Rightarrow> SidechainDetector \<Rightarrow> SidechainDetector" where
  "sd_prepare newSampleRate samplesPerBlock d =
     (let d1 = d\<lparr>sd_sampleRate := newSampleRate\<rparr>;
          d2 = d1\<lparr>rmsWindowSize := nat (max 1 (static_cast_int (sd_sampleRate d1 * 0.01)))\<rparr>;
          d3 = d2\<lparr>rmsBuffer := vector_resize (rmsWindowSize d2) 0 (rmsBuffer d2)\<rparr>;
          d4 = d3\<lparr>rmsWriteIndex := 0, rmsSum := 0\<rparr>;
          d5 = d4\<lparr>peakAttackCoeff := exp (- 1 / (sd_sampleRate d4 * 0.0001)),
                   peakReleaseCoeff := exp (- 1 / (sd_sampleRate d4 * 0.05))\<rparr>
      in d5\<lparr>peakEnvelope := 0\<rparr>)"

definition sd_reset :: "SidechainDetector \<Rightarrow> SidechainDetector" where
  "sd_reset d =
     d\<lparr>rmsBuffer := replicate (length (rmsBuffer d)) 0, rmsWriteIndex := 0, rmsSum := 0,
       peakEnvelope := 0\<rparr>"

text \<open>
  \<^verbatim>\<open>processSample\<close>. Indexing the vector beyond its end and the remainder of a
  division by zero are undefined in C++: the model returns \<open>None\<close> there. The square
  root of a negative number is NaN in C++, where \<^term>\<open>sqrt\<close> of HOL is the odd
  extension: the two agree where the running sum is not negative.
\<close>

definition sd_processSample ::
  "real \<Rightarrow> real \<Rightarrow> SidechainDetector \<Rightarrow> (SidechainDetector \<times> real) option" where
  "sd_processSample inputL inputR d =
     (if rmsWriteIndex d \<ge> length (rmsBuffer d) \<or> rmsWindowSize d = 0 then None
      else
        (let monoInput = (inputL + inputR) * 0.5;
             inputSquared = monoInput * monoInput;
             inputAbs = \<bar>monoInput\<bar>;
             d1 = d\<lparr>rmsSum := rmsSum d - rmsBuffer d ! rmsWriteIndex d\<rparr>;
             d2 = d1\<lparr>rmsBuffer := (rmsBuffer d1)[rmsWriteIndex d1 := inputSquared]\<rparr>;
             d3 = d2\<lparr>rmsSum := rmsSum d2 + inputSquared\<rparr>;
             d4 = d3\<lparr>rmsWriteIndex := (rmsWriteIndex d3 + 1) mod rmsWindowSize d3\<rparr>;
             rmsLevel = sqrt (rmsSum d4 / real (rmsWindowSize d4));
             d5 = (if inputAbs > peakEnvelope d4
                   then d4\<lparr>peakEnvelope := peakAttackCoeff d4 * peakEnvelope d4
                                               + (1 - peakAttackCoeff d4) * inputAbs\<rparr>
                   else d4\<lparr>peakEnvelope := peakReleaseCoeff d4 * peakEnvelope d4\<rparr>);
             hybridLevel = rmsLevel * rmsWeight d5 + peakEnvelope d5 * peakWeight d5
         in Some (d5, gainToDecibels hybridLevel (- 60))))"

text \<open>A sequence of calls of \<^verbatim>\<open>processSample\<close>, as \<^verbatim>\<open>processBlock\<close> makes them.\<close>

fun sd_processBlock ::
  "(real \<times> real) list \<Rightarrow> SidechainDetector \<Rightarrow> (SidechainDetector \<times> real list) option" where
  "sd_processBlock [] d = Some (d, [])"
| "sd_processBlock ((l, r) # xs) d =
     (case sd_processSample l r d of
        None \<Rightarrow> None
      | Some (d1, y) \<Rightarrow>
          (case sd_processBlock xs d1 of
             None \<Rightarrow> None
           | Some (d2, ys) \<Rightarrow> Some (d2, y # ys)))"

definition setBlend :: "real \<Rightarrow> SidechainDetector \<Rightarrow> SidechainDetector" where
  "setBlend rmsRatio d =
     (let d1 = d\<lparr>rmsWeight := jlimit 0 1 rmsRatio\<rparr>
      in d1\<lparr>peakWeight := 1 - rmsWeight d1\<rparr>)"

text \<open>
  What \<^verbatim>\<open>prepare\<close> establishes and \<^verbatim>\<open>processSample\<close> relies on: the vector
  is as long as the window, and the write index is inside it.
\<close>

definition sd_indexed :: "SidechainDetector \<Rightarrow> bool" where
  "sd_indexed d \<longleftrightarrow>
     length (rmsBuffer d) = rmsWindowSize d \<and> rmsWriteIndex d < rmsWindowSize d"

text \<open>The running sum is the sum of the window, whose entries are squares.\<close>

definition sd_sum_ok :: "SidechainDetector \<Rightarrow> bool" where
  "sd_sum_ok d \<longleftrightarrow>
     sd_indexed d \<and> rmsSum d = sum_list (rmsBuffer d) \<and> list_all (\<lambda>x. 0 \<le> x) (rmsBuffer d)"

subsection \<open>The IIR filters of JUCE\<close>

text \<open>
  The three filters of TubeSaturation and the two of TransformerColoration are objects of
  \<^verbatim>\<open>juce::dsp::ProcessorDuplicator<IIR::Filter<float>, IIR::Coefficients<float>>\<close>.
  The library is not part of the program: its operations are parameters of the model,
  collected in a record. \<open>'f\<close> is the type of a duplicator object (its coefficients and
  the state of the filter of each channel).
  \<^item> \<open>iir_prepare sampleRate maximumBlockSize numChannels\<close> is \<^verbatim>\<open>prepare (spec)\<close>;
  \<^item> \<open>iir_process block\<close> is \<^verbatim>\<open>process (ProcessContextReplacing (block))\<close>: it
    returns the object and the samples it has written over the block;
  \<^item> \<open>makeHighPass sampleRate frequency\<close> is the assignment
    \<^verbatim>\<open>*f.state = *Coefficients::makeHighPass (sampleRate, frequency)\<close>, likewise
    \<open>makeLowPass\<close>, and \<open>makeLowShelf\<close> and \<open>makeHighShelf\<close> with the arguments
    sample rate, cut-off frequency, Q and gain factor.
\<close>

record 'f IIR =
  iir_prepare :: "real \<Rightarrow> nat \<Rightarrow> nat \<Rightarrow> 'f \<Rightarrow> 'f"
  iir_reset :: "'f \<Rightarrow> 'f"
  iir_process :: "real list list \<Rightarrow> 'f \<Rightarrow> 'f \<times> real list list"
  makeHighPass :: "real \<Rightarrow> real \<Rightarrow> 'f \<Rightarrow> 'f"
  makeLowPass :: "real \<Rightarrow> real \<Rightarrow> 'f \<Rightarrow> 'f"
  makeLowShelf :: "real \<Rightarrow> real \<Rightarrow> real \<Rightarrow> real \<Rightarrow> 'f \<Rightarrow> 'f"
  makeHighShelf :: "real \<Rightarrow> real \<Rightarrow> real \<Rightarrow> real \<Rightarrow> 'f \<Rightarrow> 'f"

text \<open>
  A replacing context writes the output over the input block: the filter returns as many
  channels, of as many samples, as it is given.
\<close>

definition iir_in_place :: "'f IIR \<Rightarrow> bool" where
  "iir_in_place J \<longleftrightarrow> (\<forall>block f. map length (snd (iir_process J block f)) = map length block)"

subsection \<open>juce::AudioBuffer\<close>

text \<open>
  A buffer is its number of samples and its channels, each a list of that many samples
  (\<open>buffer_ok\<close>, the invariant of the class).
\<close>

record AudioBuffer =
  bufNumSamples :: nat
  bufChannels :: "real list list"

definition getNumSamples :: "AudioBuffer \<Rightarrow> nat" where
  "getNumSamples buffer = bufNumSamples buffer"

definition getNumChannels :: "AudioBuffer \<Rightarrow> nat" where
  "getNumChannels buffer = length (bufChannels buffer)"

definition buffer_ok :: "AudioBuffer \<Rightarrow> bool" where
  "buffer_ok buffer \<longleftrightarrow> list_all (\<lambda>c. length c = bufNumSamples buffer) (bufChannels buffer)"

definition getSample :: "AudioBuffer \<Rightarrow> nat \<Rightarrow> nat \<Rightarrow> real" where
  "getSample buffer channel sampleIndex = bufChannels buffer ! channel ! sampleIndex"

text \<open>
  \<^verbatim>\<open>getMagnitude (channel, startSample, numSamples)\<close>: the largest absolute value of
  the samples of the range, 0 for an empty range.
\<close>

definition getMagnitude :: "AudioBuffer \<Rightarrow> nat \<Rightarrow> nat \<Rightarrow> nat \<Rightarrow> real" where
  "getMagnitude buffer channel startSample numSamples =
     foldl (\<lambda>m x. max m \<bar>x\<bar>) 0 (take numSamples (drop startSample (bufChannels buffer ! channel)))"

text \<open>\<^verbatim>\<open>clear (channel, 0, getNumSamples())\<close>: every sample of the channel becomes 0.\<close>

definition clearChannel :: "nat \<Rightarrow> AudioBuffer \<Rightarrow> AudioBuffer" where
  "clearChannel channel buffer =
     buffer\<lparr>bufChannels :=
       (bufChannels buffer)[channel := map (\<lambda>x. 0) (bufChannels buffer ! channel)]\<rparr>"

subsection \<open>TubeSaturation\<close>

record 'f TubeSaturation =
  ts_sampleRate :: real
  drive :: real
  driveScaled :: real
  dcBlocker :: 'f
  lowpassForSat :: 'f
  highpassForClean :: 'f

definition ts_prepare :: "'f IIR \<Rightarrow> real \<Rightarrow> nat \<Rightarrow> 'f TubeSaturation \<Rightarrow> 'f TubeSaturation" where
  "ts_prepare J newSampleRate samplesPerBlock t =
     (let t1 = t\<lparr>ts_sampleRate := newSampleRate\<rparr>;
          sr = ts_sampleRate t1;
          t2 = t1\<lparr>dcBlocker := makeHighPass J sr 5 (iir_prepare J sr samplesPerBlock 2 (dcBlocker t1))\<rparr>;
          t3 = t2\<lparr>lowpassForSat :=
                    makeLowPass J sr 800 (iir_prepare J sr samplesPerBlock 2 (lowpassForSat t2))\<rparr>
      in t3\<lparr>highpassForClean :=
               makeHighPass J sr 600 (iir_prepare J sr samplesPerBlock 2 (highpassForClean t3))\<rparr>)"

definition ts_reset :: "'f IIR \<Rightarrow> 'f TubeSaturation \<Rightarrow> 'f TubeSaturation" where
  "ts_reset J t =
     t\<lparr>dcBlocker := iir_reset J (dcBlocker t), lowpassForSat := iir_reset J (lowpassForSat t),
       highpassForClean := iir_reset J (highpassForClean t)\<rparr>"

definition setDrive :: "real \<Rightarrow> 'f TubeSaturation \<Rightarrow> 'f TubeSaturation" where
  "setDrive driveAmount t =
     (let t1 = t\<lparr>drive := jlimit 0 1 driveAmount\<rparr>
      in t1\<lparr>driveScaled := 1 + drive t1 * 3\<rparr>)"

definition ts_softSaturate :: "real \<Rightarrow> real \<Rightarrow> real" where
  "ts_softSaturate x amount = x / (1 + \<bar>x\<bar> * amount)"

definition ts_processSample :: "'f TubeSaturation \<Rightarrow> real \<Rightarrow> real" where
  "ts_processSample t input =
     (if drive t < 0.001 then input
      else
        (let x = input * (1 + drive t * 1.5);
             tanhInput = tanh (x * 0.8);
             asymmetry = (if x < 0 then x * \<bar>x\<bar> * 0.08 * drive t else 0);
             output0 = tanhInput + asymmetry;
             harmonic = input * \<bar>input\<bar> * 0.15 * drive t;
             output1 = output0 + harmonic;
             output2 = ts_softSaturate output1 (0.3 + drive t * 0.5);
             output3 = output2 * (0.85 / (1 + drive t * 0.3))
         in input * (1 - drive t) + output3 * drive t))"

text \<open>
  \<^verbatim>\<open>processBlock\<close>: the bypass, or the two bands filtered from copies of the buffer,
  the low band saturated, the bands recombined over the buffer, and the DC blocker.
\<close>

definition ts_processBlock ::
  "'f IIR \<Rightarrow> 'f TubeSaturation \<Rightarrow> AudioBuffer \<Rightarrow> 'f TubeSaturation \<times> AudioBuffer" where
  "ts_processBlock J t buffer =
     (if drive t < 0.001 then (t, buffer)
      else
        (let numSamples = getNumSamples buffer;
             numChannels = getNumChannels buffer;
             (lp, lowBand) = iir_process J (bufChannels buffer) (lowpassForSat t);
             (hp, highBand) = iir_process J (bufChannels buffer) (highpassForClean t);
             lowData = map (map (ts_processSample t)) lowBand;
             outData = map (\<lambda>ch. map (\<lambda>sample.
                              lowData ! ch ! sample + highBand ! ch ! sample * (1 - drive t * 0.3))
                            [0..<numSamples]) [0..<numChannels];
             (dc, block) = iir_process J outData (dcBlocker t)
         in (t\<lparr>lowpassForSat := lp, highpassForClean := hp, dcBlocker := dc\<rparr>,
             buffer\<lparr>bufChannels := block\<rparr>)))"

subsection \<open>TransformerColoration\<close>

record 'f TransformerColoration =
  tc_sampleRate :: real
  colorAmount :: real
  lowShelf :: 'f
  highShelf :: 'f

definition tc_prepare ::
  "'f IIR \<Rightarrow> real \<Rightarrow> nat \<Rightarrow> 'f TransformerColoration \<Rightarrow> 'f TransformerColoration" where
  "tc_prepare J newSampleRate samplesPerBlock t =
     (let t1 = t\<lparr>tc_sampleRate := newSampleRate\<rparr>;
          sr = tc_sampleRate t1;
          t2 = t1\<lparr>lowShelf :=
                    makeLowShelf J sr 100 0.7 1 (iir_prepare J sr samplesPerBlock 2 (lowShelf t1))\<rparr>
      in t2\<lparr>highShelf :=
               makeHighShelf J sr 8000 0.7 1 (iir_prepare J sr samplesPerBlock 2 (highShelf t2))\<rparr>)"

definition tc_reset :: "'f IIR \<Rightarrow> 'f TransformerColoration \<Rightarrow> 'f TransformerColoration" where
  "tc_reset J t = t\<lparr>lowShelf := iir_reset J (lowShelf t), highShelf := iir_reset J (highShelf t)\<rparr>"

definition setAmount ::
  "'f IIR \<Rightarrow> real \<Rightarrow> 'f TransformerColoration \<Rightarrow> 'f TransformerColoration" where
  "setAmount J amount t =
     (let t1 = t\<lparr>colorAmount := jlimit 0 1 amount\<rparr>;
          lowGainDb = colorAmount t1 * 3;
          lowGain = decibelsToGain lowGainDb defaultMinusInfinitydB;
          t2 = t1\<lparr>lowShelf := makeLowShelf J (tc_sampleRate t1) 120 0.5 lowGain (lowShelf t1)\<rparr>;
          highGainDb = - colorAmount t2 * 1.5;
          highGain = decibelsToGain highGainDb defaultMinusInfinitydB
      in t2\<lparr>highShelf := makeHighShelf J (tc_sampleRate t2) 8000 0.5 highGain (highShelf t2)\<rparr>)"

definition tc_softSaturate :: "real \<Rightarrow> real \<Rightarrow> real" where
  "tc_softSaturate x knee = x / (1 + \<bar>x\<bar> * knee)"

definition tc_processSample :: "'f TransformerColoration \<Rightarrow> nat \<Rightarrow> real \<Rightarrow> real" where
  "tc_processSample t channel input =
     (if colorAmount t < 0.001 then input
      else
        (let x = input;
             satAmount = 0.2 + colorAmount t * 0.4;
             saturation0 = tc_softSaturate (x * (1 + colorAmount t * 0.5)) satAmount;
             thirdHarmonic = tc_softSaturate (x * x * x * 0.1 * colorAmount t) 0.5;
             saturation1 = saturation0 + thirdHarmonic;
             saturation2 = saturation1 * (0.95 / (1 + colorAmount t * 0.2));
             wetAmount = colorAmount t * 0.5
         in input * (1 - wetAmount) + saturation2 * wetAmount))"

definition tc_processBlock ::
  "'f IIR \<Rightarrow> 'f TransformerColoration \<Rightarrow> AudioBuffer
     \<Rightarrow> 'f TransformerColoration \<times> AudioBuffer" where
  "tc_processBlock J t buffer =
     (if colorAmount t < 0.001 then (t, buffer)
      else
        (let data = map (\<lambda>channel. map (tc_processSample t channel) (bufChannels buffer ! channel))
                      [0..<getNumChannels buffer];
             (ls, block0) = iir_process J data (lowShelf t);
             (hs, block1) = iir_process J block0 (highShelf t)
         in (t\<lparr>lowShelf := ls, highShelf := hs\<rparr>, buffer\<lparr>bufChannels := block1\<rparr>)))"

subsection \<open>juce::SmoothedValue\<close>

text \<open>
  The linear \<^verbatim>\<open>juce::SmoothedValue<float>\<close>, from the library's header:
  \<^verbatim>\<open>reset (sampleRate, rampLengthInSeconds)\<close> sets the number of steps to
  \<^verbatim>\<open>(int) std::floor (rampLengthInSeconds * sampleRate)\<close> and jumps to the target;
  \<^verbatim>\<open>setTargetValue\<close> returns at once when the new value is the target, jumps when
  there are no steps, and else starts a ramp of \<open>stepsToTarget\<close> steps;
  \<^verbatim>\<open>getNextValue\<close> returns the target when no ramp is running and else advances the
  ramp by one step; \<^verbatim>\<open>skip (numSamples)\<close> advances it by \<open>numSamples\<close> steps.
\<close>

record SmoothedValue =
  currentValue :: real
  target :: real
  step :: real
  countdown :: int
  stepsToTarget :: int

definition SmoothedValue_init :: SmoothedValue where
  "SmoothedValue_init = \<lparr>currentValue = 0, target = 0, step = 0, countdown = 0, stepsToTarget = 0\<rparr>"

definition setCurrentAndTargetValue :: "real \<Rightarrow> SmoothedValue \<Rightarrow> SmoothedValue" where
  "setCurrentAndTargetValue newValue v = v\<lparr>target := newValue, currentValue := newValue, countdown := 0\<rparr>"

definition sv_reset :: "real \<Rightarrow> real \<Rightarrow> SmoothedValue \<Rightarrow> SmoothedValue" where
  "sv_reset sampleRate rampLengthInSeconds v =
     (let v1 = v\<lparr>stepsToTarget := \<lfloor>rampLengthInSeconds * sampleRate\<rfloor>\<rparr>
      in setCurrentAndTargetValue (target v1) v1)"

definition isSmoothing :: "SmoothedValue \<Rightarrow> bool" where
  "isSmoothing v \<longleftrightarrow> countdown v > 0"

definition setTargetValue :: "real \<Rightarrow> SmoothedValue \<Rightarrow> SmoothedValue" where
  "setTargetValue newValue v =
     (if newValue = target v then v
      else if stepsToTarget v \<le> 0 then setCurrentAndTargetValue newValue v
      else
        (let v1 = v\<lparr>target := newValue, countdown := stepsToTarget v\<rparr>
         in v1\<lparr>step := (target v1 - currentValue v1) / real_of_int (countdown v1)\<rparr>))"

definition getCurrentValue :: "SmoothedValue \<Rightarrow> real" where
  "getCurrentValue v = currentValue v"

definition getNextValue :: "SmoothedValue \<Rightarrow> SmoothedValue \<times> real" where
  "getNextValue v =
     (if \<not> isSmoothing v then (v, target v)
      else
        (let v1 = v\<lparr>countdown := countdown v - 1\<rparr>;
             v2 = (if isSmoothing v1 then v1\<lparr>currentValue := currentValue v1 + step v1\<rparr>
                   else v1\<lparr>currentValue := target v1\<rparr>)
         in (v2, currentValue v2)))"

definition skip :: "nat \<Rightarrow> SmoothedValue \<Rightarrow> SmoothedValue" where
  "skip numSamples v =
     (if int numSamples \<ge> countdown v then setCurrentAndTargetValue (target v) v
      else v\<lparr>currentValue := currentValue v + step v * real numSamples,
             countdown := countdown v - int numSamples\<rparr>)"

subsection \<open>FatPressorAudioProcessor\<close>

text \<open>
  The seven parameter values are atomics a host owns; the processor loads them. One call
  of \<^verbatim>\<open>prepareToPlay\<close> or \<^verbatim>\<open>processBlock\<close> is modelled with one snapshot of them.
\<close>

record Parameters =
  thresholdParam :: real
  ratioParam :: real
  attackParam :: real
  releaseParam :: real
  fatParam :: real
  outputParam :: real
  mixParam :: real

record 'f FatPressorAudioProcessor =
  totalNumInputChannels :: nat
  totalNumOutputChannels :: nat
  inputLevelL :: real
  inputLevelR :: real
  outputLevelL :: real
  outputLevelR :: real
  gainReduction :: real
  sidechainDetector :: SidechainDetector
  envelopeFollower :: EnvelopeFollower
  gainComputer :: GainComputer
  tubeSaturation :: "'f TubeSaturation"
  transformerColoration :: "'f TransformerColoration"
  thresholdSmoothed :: SmoothedValue
  ratioSmoothed :: SmoothedValue
  attackSmoothed :: SmoothedValue
  releaseSmoothed :: SmoothedValue
  fatSmoothed :: SmoothedValue
  outputSmoothed :: SmoothedValue
  mixSmoothed :: SmoothedValue
  currentSampleRate :: real

definition prepareToPlay ::
  "'f IIR \<Rightarrow> Parameters \<Rightarrow> real \<Rightarrow> nat \<Rightarrow> 'f FatPressorAudioProcessor
     \<Rightarrow> 'f FatPressorAudioProcessor" where
  "prepareToPlay J prm sampleRate samplesPerBlock p =
     (let p1 = p\<lparr>currentSampleRate := sampleRate\<rparr>;
          p2 = p1\<lparr>thresholdSmoothed := sv_reset sampleRate 0.002 (thresholdSmoothed p1),
                   ratioSmoothed := sv_reset sampleRate 0.002 (ratioSmoothed p1),
                   attackSmoothed := sv_reset sampleRate 0.001 (attackSmoothed p1),
                   releaseSmoothed := sv_reset sampleRate 0.001 (releaseSmoothed p1),
                   fatSmoothed := sv_reset sampleRate 0.005 (fatSmoothed p1),
                   outputSmoothed := sv_reset sampleRate 0.003 (outputSmoothed p1),
                   mixSmoothed := sv_reset sampleRate 0.003 (mixSmoothed p1)\<rparr>;
          p3 = p2\<lparr>thresholdSmoothed := setCurrentAndTargetValue (thresholdParam prm) (thresholdSmoothed p2),
                   ratioSmoothed := setCurrentAndTargetValue (ratioParam prm) (ratioSmoothed p2),
                   attackSmoothed := setCurrentAndTargetValue (attackParam prm) (attackSmoothed p2),
                   releaseSmoothed := setCurrentAndTargetValue (releaseParam prm) (releaseSmoothed p2),
                   fatSmoothed := setCurrentAndTargetValue (fatParam prm) (fatSmoothed p2),
                   outputSmoothed := setCurrentAndTargetValue (outputParam prm) (outputSmoothed p2),
                   mixSmoothed := setCurrentAndTargetValue (mixParam prm) (mixSmoothed p2)\<rparr>;
          p4 = p3\<lparr>sidechainDetector := sd_prepare sampleRate samplesPerBlock (sidechainDetector p3)\<rparr>;
          p5 = p4\<lparr>envelopeFollower :=
                    setReleaseMs (releaseParam prm)
                      (setAttackMs (attackParam prm)
                        (ef_prepare sampleRate samplesPerBlock (envelopeFollower p4)))\<rparr>;
          p6 = p5\<lparr>gainComputer :=
                    setKneeWidth 6
                      (setRatio (ratioParam prm)
                        (setThreshold (thresholdParam prm) (gainComputer p5)))\<rparr>;
          p7 = p6\<lparr>tubeSaturation :=
                    setDrive (fatParam prm / 100)
                      (ts_prepare J sampleRate samplesPerBlock (tubeSaturation p6))\<rparr>
      in p7\<lparr>transformerColoration :=
               setAmount J (fatParam prm / 100)
                 (tc_prepare J sampleRate samplesPerBlock (transformerColoration p7))\<rparr>)"

text \<open>
  The loop that clears the output channels beyond the inputs. Clearing a channel the
  buffer does not have is undefined (an assertion of JUCE): \<open>None\<close>.
\<close>

definition clearUnusedChannels :: "nat \<Rightarrow> nat \<Rightarrow> AudioBuffer \<Rightarrow> AudioBuffer option" where
  "clearUnusedChannels nIn nOut buffer =
     (if nIn < nOut \<and> getNumChannels buffer < nOut then None
      else Some (fold clearChannel [nIn..<nOut] buffer))"

text \<open>
  The statements of \<^verbatim>\<open>processBlock\<close>, in the order of the source: the targets of
  the seven smoothers; the input meters; the five smoothers that are skipped to the end of
  the block; the values read from them and set on the components.
\<close>

definition updateTargets ::
  "Parameters \<Rightarrow> 'f FatPressorAudioProcessor \<Rightarrow> 'f FatPressorAudioProcessor" where
  "updateTargets prm p =
     p\<lparr>thresholdSmoothed := setTargetValue (thresholdParam prm) (thresholdSmoothed p),
       ratioSmoothed := setTargetValue (ratioParam prm) (ratioSmoothed p),
       attackSmoothed := setTargetValue (attackParam prm) (attackSmoothed p),
       releaseSmoothed := setTargetValue (releaseParam prm) (releaseSmoothed p),
       fatSmoothed := setTargetValue (fatParam prm) (fatSmoothed p),
       outputSmoothed := setTargetValue (outputParam prm) (outputSmoothed p),
       mixSmoothed := setTargetValue (mixParam prm) (mixSmoothed p)\<rparr>"

definition measureInputLevel ::
  "AudioBuffer \<Rightarrow> nat \<Rightarrow> 'f FatPressorAudioProcessor \<Rightarrow> 'f FatPressorAudioProcessor" where
  "measureInputLevel buffer numSamples p =
     (let inL = getMagnitude buffer 0 0 numSamples;
          inR = (if getNumChannels buffer > 1 then getMagnitude buffer 1 0 numSamples else inL)
      in p\<lparr>inputLevelL := gainToDecibels inL (- 60),
           inputLevelR := gainToDecibels inR (- 60)\<rparr>)"

definition skipSmoothing ::
  "nat \<Rightarrow> 'f FatPressorAudioProcessor \<Rightarrow> 'f FatPressorAudioProcessor" where
  "skipSmoothing numSamples p =
     p\<lparr>thresholdSmoothed := skip numSamples (thresholdSmoothed p),
       ratioSmoothed := skip numSamples (ratioSmoothed p),
       attackSmoothed := skip numSamples (attackSmoothed p),
       releaseSmoothed := skip numSamples (releaseSmoothed p),
       fatSmoothed := skip numSamples (fatSmoothed p)\<rparr>"

definition updateComponents ::
  "'f IIR \<Rightarrow> 'f FatPressorAudioProcessor \<Rightarrow> 'f FatPressorAudioProcessor" where
  "updateComponents J p =
     (let currentThreshold = getCurrentValue (thresholdSmoothed p);
          currentRatio = getCurrentValue (ratioSmoothed p);
          currentAttack = getCurrentValue (attackSmoothed p);
          currentRelease = getCurrentValue (releaseSmoothed p);
          currentFat = getCurrentValue (fatSmoothed p) / 100
      in p\<lparr>envelopeFollower :=
             setReleaseMs currentRelease (setAttackMs currentAttack (envelopeFollower p)),
           gainComputer := setRatio currentRatio (setThreshold currentThreshold (gainComputer p)),
           tubeSaturation := setDrive currentFat (tubeSaturation p),
           transformerColoration := setAmount J currentFat (transformerColoration p)\<rparr>)"

text \<open>
  One pass of the compression loop, for the sample index \<open>sample\<close>. First the detector,
  the envelope follower and the gain computer give the gain reduction \<^verbatim>\<open>grDb\<close> of the
  sample (\<open>sampleGainReduction\<close>); then the peak of the gain reduction is tracked and the
  gain applied to the sample of every channel. The state of the loop is the detector, the
  follower, the buffer and \<^verbatim>\<open>peakGainReduction\<close>.
\<close>

definition sampleGainReduction ::
  "GainComputer \<Rightarrow> nat \<Rightarrow> SidechainDetector \<Rightarrow> EnvelopeFollower \<Rightarrow> AudioBuffer
     \<Rightarrow> (SidechainDetector \<times> EnvelopeFollower \<times> real) option" where
  "sampleGainReduction g sample sd ef buffer =
     (let leftSample = getSample buffer 0 sample;
          rightSample = (if getNumChannels buffer > 1 then getSample buffer 1 sample
                         else leftSample)
      in case sd_processSample leftSample rightSample sd of
           None \<Rightarrow> None
         | Some (sd1, detectionDb) \<Rightarrow>
             (let (ef1, envelopeDb) = ef_processSample detectionDb ef;
                  grDb = computeGainReduction g envelopeDb
              in Some (sd1, ef1, grDb)))"

type_synonym CompressState = "SidechainDetector \<times> EnvelopeFollower \<times> AudioBuffer \<times> real"

definition compressSample :: "GainComputer \<Rightarrow> nat \<Rightarrow> CompressState \<Rightarrow> CompressState option" where
  "compressSample g sample st =
     (case st of (sd, ef, buffer, peakGR) \<Rightarrow>
        (case sampleGainReduction g sample sd ef buffer of
           None \<Rightarrow> None
         | Some (sd1, ef1, grDb) \<Rightarrow>
             (let peakGR1 = (if grDb < peakGR then grDb else peakGR);
                  grLinear = decibelsToGain grDb defaultMinusInfinitydB;
                  buffer1 = buffer\<lparr>bufChannels :=
                              map (\<lambda>channelData.
                                     channelData[sample := channelData ! sample * grLinear])
                                  (bufChannels buffer)\<rparr>
              in Some (sd1, ef1, buffer1, peakGR1))))"

fun compressLoop :: "GainComputer \<Rightarrow> nat list \<Rightarrow> CompressState \<Rightarrow> CompressState option" where
  "compressLoop g [] st = Some st"
| "compressLoop g (sample # samples) st =
     (case compressSample g sample st of
        None \<Rightarrow> None
      | Some st1 \<Rightarrow> compressLoop g samples st1)"

text \<open>The values \<^verbatim>\<open>grDb\<close> takes in the passes of the loop, in their order.\<close>

fun compressGains :: "GainComputer \<Rightarrow> nat list \<Rightarrow> CompressState \<Rightarrow> real list" where
  "compressGains g [] st = []"
| "compressGains g (sample # samples) st =
     (case st of (sd, ef, buffer, peakGR) \<Rightarrow>
        (case sampleGainReduction g sample sd ef buffer of
           None \<Rightarrow> []
         | Some (sd1, ef1, grDb) \<Rightarrow>
             (case compressSample g sample st of
                None \<Rightarrow> []
              | Some st1 \<Rightarrow> grDb # compressGains g samples st1)))"

text \<open>
  The output gain and mix loop. For one sample of one channel: the next values of the two
  smoothers, the output gain on the wet sample, the blend with the dry sample. After the
  samples of a channel both smoothers are set to the parameter values.
\<close>

type_synonym MixState = "SmoothedValue \<times> SmoothedValue \<times> real list"

definition mixSample :: "real list \<Rightarrow> nat \<Rightarrow> MixState \<Rightarrow> MixState" where
  "mixSample dryData sample st =
     (case st of (outputSm, mixSm, wetData) \<Rightarrow>
        (let (outputSm1, outputGainDb) = getNextValue outputSm;
             (mixSm1, mixPercent) = getNextValue mixSm;
             outputGain = decibelsToGain outputGainDb defaultMinusInfinitydB;
             mixAmount = mixPercent / 100;
             wetSample = wetData ! sample * outputGain
         in (outputSm1, mixSm1,
             wetData[sample := wetSample * mixAmount + dryData ! sample * (1 - mixAmount)])))"

type_synonym MixLoopState = "SmoothedValue \<times> SmoothedValue \<times> AudioBuffer"

definition mixChannel ::
  "Parameters \<Rightarrow> AudioBuffer \<Rightarrow> nat \<Rightarrow> nat \<Rightarrow> MixLoopState \<Rightarrow> MixLoopState" where
  "mixChannel prm dryBuffer numSamples channel st =
     (case st of (outputSm, mixSm, buffer) \<Rightarrow>
        (let wetData = bufChannels buffer ! channel;
             dryData = bufChannels dryBuffer ! channel;
             (outputSm1, mixSm1, wetData1) =
                fold (mixSample dryData) [0..<numSamples] (outputSm, mixSm, wetData)
         in (setCurrentAndTargetValue (outputParam prm) outputSm1,
             setCurrentAndTargetValue (mixParam prm) mixSm1,
             buffer\<lparr>bufChannels := (bufChannels buffer)[channel := wetData1]\<rparr>)))"

definition mixLoop :: "Parameters \<Rightarrow> AudioBuffer \<Rightarrow> nat \<Rightarrow> MixLoopState \<Rightarrow> MixLoopState" where
  "mixLoop prm dryBuffer numSamples st =
     (case st of (outputSm, mixSm, buffer) \<Rightarrow>
        fold (mixChannel prm dryBuffer numSamples) [0..<getNumChannels buffer] st)"

definition measureOutputLevel ::
  "AudioBuffer \<Rightarrow> nat \<Rightarrow> 'f FatPressorAudioProcessor \<Rightarrow> 'f FatPressorAudioProcessor" where
  "measureOutputLevel buffer numSamples p =
     (let outL = getMagnitude buffer 0 0 numSamples;
          outR = (if getNumChannels buffer > 1 then getMagnitude buffer 1 0 numSamples else outL)
      in p\<lparr>outputLevelL := gainToDecibels outL (- 60),
           outputLevelR := gainToDecibels outR (- 60)\<rparr>)"

text \<open>
  \<^verbatim>\<open>processBlock\<close>. It needs channel 0 of the buffer (\<^verbatim>\<open>getMagnitude (0, ...)\<close>):
  without any channel the result is \<open>None\<close>, as it is when the detector reads outside
  its window. \<open>dryCopy\<close> is the buffer \<^verbatim>\<open>dryBuffer.makeCopyOf (buffer)\<close> copies.
\<close>

definition dryCopy :: "'f FatPressorAudioProcessor \<Rightarrow> AudioBuffer \<Rightarrow> AudioBuffer option" where
  "dryCopy p buffer0 =
     clearUnusedChannels (totalNumInputChannels p) (totalNumOutputChannels p) buffer0"

definition processBlock ::
  "'f IIR \<Rightarrow> Parameters \<Rightarrow> 'f FatPressorAudioProcessor \<Rightarrow> AudioBuffer
     \<Rightarrow> ('f FatPressorAudioProcessor \<times> AudioBuffer) option" where
  "processBlock J prm p buffer0 =
     (let numSamples = getNumSamples buffer0
      in case clearUnusedChannels (totalNumInputChannels p) (totalNumOutputChannels p) buffer0 of
           None \<Rightarrow> None
         | Some buffer \<Rightarrow>
             if getNumChannels buffer = 0 then None
             else
               (let p1 = measureInputLevel buffer numSamples (updateTargets prm p);
                    dryBuffer = buffer;
                    p2 = updateComponents J (skipSmoothing numSamples p1);
                    (ts, buffer1) = ts_processBlock J (tubeSaturation p2) buffer
                in case compressLoop (gainComputer p2) [0..<numSamples]
                          (sidechainDetector p2, envelopeFollower p2, buffer1, 0) of
                     None \<Rightarrow> None
                   | Some (sd, ef, buffer2, peakGR) \<Rightarrow>
                       (let p3 = p2\<lparr>tubeSaturation := ts, sidechainDetector := sd,
                                    envelopeFollower := ef, gainReduction := - peakGR\<rparr>;
                            (tc, buffer3) = tc_processBlock J (transformerColoration p3) buffer2;
                            (outputSm, mixSm, buffer4) =
                               mixLoop prm dryBuffer numSamples
                                 (outputSmoothed p3, mixSmoothed p3, buffer3);
                            p4 = measureOutputLevel buffer4 numSamples
                                   (p3\<lparr>transformerColoration := tc, outputSmoothed := outputSm,
                                       mixSmoothed := mixSm\<rparr>)
                        in Some (p4, buffer4))))"

subsection \<open>Objects as constructed, and a filter to run the model with\<close>

text \<open>
  The processor as its constructor leaves it (stereo input and output buses, the default
  member initialisers), given the filter object \<open>f0\<close> the library constructs, and the
  default values of the parameters from \<^verbatim>\<open>createParameterLayout\<close>.
\<close>

definition TubeSaturation_init :: "'f \<Rightarrow> 'f TubeSaturation" where
  "TubeSaturation_init f0 =
     \<lparr>ts_sampleRate = 44100, drive = 0, driveScaled = 1, dcBlocker = f0, lowpassForSat = f0,
      highpassForClean = f0\<rparr>"

definition TransformerColoration_init :: "'f \<Rightarrow> 'f TransformerColoration" where
  "TransformerColoration_init f0 =
     \<lparr>tc_sampleRate = 44100, colorAmount = 0, lowShelf = f0, highShelf = f0\<rparr>"

definition FatPressorAudioProcessor_init :: "'f \<Rightarrow> 'f FatPressorAudioProcessor" where
  "FatPressorAudioProcessor_init f0 =
     \<lparr>totalNumInputChannels = 2, totalNumOutputChannels = 2,
      inputLevelL = - 60, inputLevelR = - 60, outputLevelL = - 60, outputLevelR = - 60,
      gainReduction = 0,
      sidechainDetector = SidechainDetector_init, envelopeFollower = EnvelopeFollower_init,
      gainComputer = GainComputer_init, tubeSaturation = TubeSaturation_init f0,
      transformerColoration = TransformerColoration_init f0,
      thresholdSmoothed = SmoothedValue_init, ratioSmoothed = SmoothedValue_init,
      attackSmoothed = SmoothedValue_init, releaseSmoothed = SmoothedValue_init,
      fatSmoothed = SmoothedValue_init, outputSmoothed = SmoothedValue_init,
      mixSmoothed = SmoothedValue_init, currentSampleRate = 44100\<rparr>"

definition Parameters_default :: Parameters where
  "Parameters_default =
     \<lparr>thresholdParam = - 20, ratioParam = 4, attackParam = 10, releaseParam = 100,
      fatParam = 50, outputParam = 0, mixParam = 100\<rparr>"

text \<open>
  A filter that passes every block through and has no state: an instance of the library
  parameter at which the model can be run.
\<close>

definition passIIR :: "unit IIR" where
  "passIIR =
     \<lparr>iir_prepare = (\<lambda>sampleRate maximumBlockSize numChannels f. f),
      iir_reset = (\<lambda>f. f),
      iir_process = (\<lambda>block f. (f, block)),
      makeHighPass = (\<lambda>sampleRate frequency f. f),
      makeLowPass = (\<lambda>sampleRate frequency f. f),
      makeLowShelf = (\<lambda>sampleRate cutOff q gainFactor f. f),
      makeHighShelf = (\<lambda>sampleRate cutOff q gainFactor f. f)\<rparr>"

subsection \<open>Predicates of the statements\<close>

text \<open>Two buffers of the same number of samples and the same channel lengths.\<close>

definition same_shape :: "AudioBuffer \<Rightarrow> AudioBuffer \<Rightarrow> bool" where
  "same_shape a b \<longleftrightarrow>
     bufNumSamples a = bufNumSamples b \<and>
     map length (bufChannels a) = map length (bufChannels b)"

text \<open>A smoother at rest at the value \<open>x\<close>: no ramp is running.\<close>

definition settled_at :: "real \<Rightarrow> SmoothedValue \<Rightarrow> bool" where
  "settled_at x v \<longleftrightarrow> currentValue v = x \<and> target v = x \<and> countdown v = 0"

text \<open>Every smoother of the processor at rest at the value of its parameter.\<close>

definition smoothers_settled :: "Parameters \<Rightarrow> 'f FatPressorAudioProcessor \<Rightarrow> bool" where
  "smoothers_settled prm p \<longleftrightarrow>
     settled_at (thresholdParam prm) (thresholdSmoothed p) \<and>
     settled_at (ratioParam prm) (ratioSmoothed p) \<and>
     settled_at (attackParam prm) (attackSmoothed p) \<and>
     settled_at (releaseParam prm) (releaseSmoothed p) \<and>
     settled_at (fatParam prm) (fatSmoothed p) \<and>
     settled_at (outputParam prm) (outputSmoothed p) \<and>
     settled_at (mixParam prm) (mixSmoothed p)"

text \<open>
  The values \<^verbatim>\<open>grDb\<close> takes in the compression loop of one call of
  \<^verbatim>\<open>processBlock\<close>: the gain reductions of the samples of the block.
\<close>

definition blockGainReductions ::
  "'f IIR \<Rightarrow> Parameters \<Rightarrow> 'f FatPressorAudioProcessor \<Rightarrow> AudioBuffer \<Rightarrow> real list" where
  "blockGainReductions J prm p buffer0 =
     (case dryCopy p buffer0 of
        None \<Rightarrow> []
      | Some buffer \<Rightarrow>
          (let numSamples = getNumSamples buffer0;
               p2 = updateComponents J (skipSmoothing numSamples
                      (measureInputLevel buffer numSamples (updateTargets prm p)))
           in compressGains (gainComputer p2) [0..<numSamples]
                (sidechainDetector p2, envelopeFollower p2,
                 snd (ts_processBlock J (tubeSaturation p2) buffer), 0)))"

section \<open>The chain in binary32 arithmetic\<close>

text \<open>
  The second model: the same classes and the same \<^verbatim>\<open>processBlock\<close>, statement by
  statement, with the \<^verbatim>\<open>float\<close> of C++ as IEEE 754 binary32. The names are those of
  the first model with the suffix \<open>32\<close>.
\<close>

subsection \<open>Binary32 values and their operations\<close>

text \<open>
  A value is a real number, an infinity or NaN; a \<^verbatim>\<open>float\<close> is such a value whose
  real number is representable (\<open>float32_value\<close>). The two zeros are one value: the sign
  of a zero only shows in a division by it, which takes the zero as positive. The
  operations \<open>xadd\<close>, \<open>xmul\<close>, \<dots> give the exact result on the extended reals, with the
  conventions of IEEE 754 for the infinities and NaN; a comparison with NaN is false.
\<close>

datatype ieee = Finite real | PlusInf | MinusInf | NaN

fun xneg :: "ieee \<Rightarrow> ieee" where
  "xneg (Finite a) = Finite (- a)"
| "xneg PlusInf = MinusInf"
| "xneg MinusInf = PlusInf"
| "xneg NaN = NaN"


fun xadd :: "ieee \<Rightarrow> ieee \<Rightarrow> ieee" where
  "xadd (Finite a) (Finite b) = Finite (a + b)"
| "xadd NaN y = NaN"
| "xadd x NaN = NaN"
| "xadd PlusInf MinusInf = NaN"
| "xadd MinusInf PlusInf = NaN"
| "xadd PlusInf y = PlusInf"
| "xadd x PlusInf = PlusInf"
| "xadd MinusInf y = MinusInf"
| "xadd x MinusInf = MinusInf"

definition xsub :: "ieee \<Rightarrow> ieee \<Rightarrow> ieee" where
  "xsub x y = xadd x (xneg y)"

fun xmul :: "ieee \<Rightarrow> ieee \<Rightarrow> ieee" where
  "xmul (Finite a) (Finite b) = Finite (a * b)"
| "xmul NaN y = NaN"
| "xmul x NaN = NaN"
| "xmul (Finite a) y = (if a = 0 then NaN else if 0 < a then y else xneg y)"
| "xmul x (Finite b) = (if b = 0 then NaN else if 0 < b then x else xneg x)"
| "xmul PlusInf y = y"
| "xmul MinusInf y = xneg y"

fun xdiv :: "ieee \<Rightarrow> ieee \<Rightarrow> ieee" where
  "xdiv (Finite a) (Finite b) =
     (if b = 0 then (if a = 0 then NaN else if 0 < a then PlusInf else MinusInf)
      else Finite (a / b))"
| "xdiv NaN y = NaN"
| "xdiv x NaN = NaN"
| "xdiv (Finite a) y = Finite 0"
| "xdiv x (Finite b) = (if 0 \<le> b then x else xneg x)"
| "xdiv x y = NaN"

fun xlt :: "ieee \<Rightarrow> ieee \<Rightarrow> bool" where
  "xlt (Finite a) (Finite b) \<longleftrightarrow> a < b"
| "xlt NaN y \<longleftrightarrow> False"
| "xlt x NaN \<longleftrightarrow> False"
| "xlt x MinusInf \<longleftrightarrow> False"
| "xlt PlusInf y \<longleftrightarrow> False"
| "xlt MinusInf y \<longleftrightarrow> True"
| "xlt x PlusInf \<longleftrightarrow> True"

fun xle :: "ieee \<Rightarrow> ieee \<Rightarrow> bool" where
  "xle (Finite a) (Finite b) \<longleftrightarrow> a \<le> b"
| "xle NaN y \<longleftrightarrow> False"
| "xle x NaN \<longleftrightarrow> False"
| "xle MinusInf y \<longleftrightarrow> True"
| "xle x PlusInf \<longleftrightarrow> True"
| "xle x y \<longleftrightarrow> False"

fun xeq :: "ieee \<Rightarrow> ieee \<Rightarrow> bool" where
  "xeq NaN y \<longleftrightarrow> False"
| "xeq x NaN \<longleftrightarrow> False"
| "xeq x y \<longleftrightarrow> x = y"


fun xlog10 :: "ieee \<Rightarrow> ieee" where
  "xlog10 (Finite a) = (if a < 0 then NaN else if a = 0 then MinusInf else Finite (log 10 a))"
| "xlog10 PlusInf = PlusInf"
| "xlog10 MinusInf = NaN"
| "xlog10 NaN = NaN"

fun xexp :: "ieee \<Rightarrow> ieee" where
  "xexp (Finite a) = Finite (exp a)"
| "xexp PlusInf = PlusInf"
| "xexp MinusInf = Finite 0"
| "xexp NaN = NaN"

fun xpow10 :: "ieee \<Rightarrow> ieee" where
  "xpow10 (Finite a) = Finite (10 powr a)"
| "xpow10 PlusInf = PlusInf"
| "xpow10 MinusInf = Finite 0"
| "xpow10 NaN = NaN"

fun xtanh :: "ieee \<Rightarrow> ieee" where
  "xtanh (Finite a) = Finite (tanh a)"
| "xtanh PlusInf = Finite 1"
| "xtanh MinusInf = Finite (- 1)"
| "xtanh NaN = NaN"


text \<open>
  Rounding to binary32: to the nearest representable number, a tie to the one with the
  even significand (\<open>rne\<close>); the unit in the last place of a number with the exponent
  \<open>e\<close> is \<open>2 ^ (e - 23)\<close>, the exponent at least -126 (gradual underflow); a result
  beyond the largest float is an infinity.
\<close>

definition rne :: "real \<Rightarrow> int" where
  "rne q = (let f = \<lfloor>q\<rfloor>; d = q - of_int f
            in if d < 1 / 2 then f else if 1 / 2 < d then f + 1
               else if even f then f else f + 1)"

definition ulp32 :: "real \<Rightarrow> real" where
  "ulp32 x = 2 powr (of_int (max \<lfloor>log 2 \<bar>x\<bar>\<rfloor> (- 126)) - 23)"

definition round32 :: "real \<Rightarrow> real" where
  "round32 x = (if x = 0 then 0 else of_int (rne (x / ulp32 x)) * ulp32 x)"

definition largest32 :: real where
  "largest32 = (2 - 1 / 2 ^ 23) * 2 ^ 127"

definition fround :: "real \<Rightarrow> ieee" where
  "fround r = (let v = round32 r
               in if largest32 < \<bar>v\<bar> then (if 0 < r then PlusInf else MinusInf) else Finite v)"

fun f32 :: "ieee \<Rightarrow> ieee" where
  "f32 (Finite r) = fround r"
| "f32 PlusInf = PlusInf"
| "f32 MinusInf = MinusInf"
| "f32 NaN = NaN"

definition float32_value :: "real \<Rightarrow> bool" where
  "float32_value r \<longleftrightarrow> round32 r = r \<and> \<bar>r\<bar> \<le> largest32"

text \<open>
  The operations of \<^verbatim>\<open>float\<close>: the exact result, rounded. A literal \<^verbatim>\<open>0.3f\<close> is
  \<open>fround 0.3\<close>. The functions of the C library (\<^verbatim>\<open>sqrt\<close>, \<^verbatim>\<open>log10\<close>,
  \<^verbatim>\<open>pow\<close>, \<^verbatim>\<open>tanh\<close>) are taken as correctly rounded. An expression is evaluated
  operation by operation in \<^verbatim>\<open>float\<close>, as the compilers for x86-64 and ARM64 do
  without contraction to fused operations. An expression in \<^verbatim>\<open>double\<close> is taken
  exact until it is cast to \<^verbatim>\<open>float\<close>.
\<close>

definition fadd :: "ieee \<Rightarrow> ieee \<Rightarrow> ieee" where
  "fadd x y = f32 (xadd x y)"

definition fsub :: "ieee \<Rightarrow> ieee \<Rightarrow> ieee" where
  "fsub x y = f32 (xsub x y)"

definition fmul :: "ieee \<Rightarrow> ieee \<Rightarrow> ieee" where
  "fmul x y = f32 (xmul x y)"

definition fdiv :: "ieee \<Rightarrow> ieee \<Rightarrow> ieee" where
  "fdiv x y = f32 (xdiv x y)"


definition flog10 :: "ieee \<Rightarrow> ieee" where
  "flog10 x = f32 (xlog10 x)"

definition fpow10 :: "ieee \<Rightarrow> ieee" where
  "fpow10 x = f32 (xpow10 x)"

definition ftanh :: "ieee \<Rightarrow> ieee" where
  "ftanh x = f32 (xtanh x)"

subsection \<open>Library functions of JUCE, binary32\<close>

definition jmax32 :: "ieee \<Rightarrow> ieee \<Rightarrow> ieee" where
  "jmax32 a b = (if xlt a b then b else a)"

definition jlimit32 :: "ieee \<Rightarrow> ieee \<Rightarrow> ieee \<Rightarrow> ieee" where
  "jlimit32 lo hi v = (if xlt v lo then lo else if xlt hi v then hi else v)"

definition gainToDecibels32 :: "ieee \<Rightarrow> ieee \<Rightarrow> ieee" where
  "gainToDecibels32 gain minusInfinityDb =
     (if xlt (Finite 0) gain then jmax32 minusInfinityDb (fmul (flog10 gain) (Finite 20))
      else minusInfinityDb)"

definition decibelsToGain32 :: "ieee \<Rightarrow> ieee \<Rightarrow> ieee" where
  "decibelsToGain32 dB minusInfinityDb =
     (if xlt minusInfinityDb dB then fpow10 (fmul dB (fround 0.05)) else Finite 0)"

definition defaultMinusInfinitydB32 :: ieee where
  "defaultMinusInfinitydB32 = Finite (- 100)"

subsection \<open>GainComputer, binary32\<close>

record GainComputer32 =
  threshold32 :: ieee
  ratio32 :: ieee
  kneeWidth32 :: ieee
  kneeStart32 :: ieee
  kneeEnd32 :: ieee

definition GainComputer32_init :: GainComputer32 where
  "GainComputer32_init =
     \<lparr>threshold32 = Finite (- 20), ratio32 = Finite 4, kneeWidth32 = Finite 6,
      kneeStart32 = Finite (- 23), kneeEnd32 = Finite (- 17)\<rparr>"

definition updateKneeBounds32 :: "GainComputer32 \<Rightarrow> GainComputer32" where
  "updateKneeBounds32 g =
     (let g1 = g\<lparr>kneeStart32 := fsub (threshold32 g) (fmul (kneeWidth32 g) (Finite 0.5))\<rparr>
      in g1\<lparr>kneeEnd32 := fadd (threshold32 g1) (fmul (kneeWidth32 g1) (Finite 0.5))\<rparr>)"

definition setThreshold32 :: "ieee \<Rightarrow> GainComputer32 \<Rightarrow> GainComputer32" where
  "setThreshold32 thresholdDb g = updateKneeBounds32 (g\<lparr>threshold32 := thresholdDb\<rparr>)"

definition setRatio32 :: "ieee \<Rightarrow> GainComputer32 \<Rightarrow> GainComputer32" where
  "setRatio32 newRatio g = g\<lparr>ratio32 := jmax32 (Finite 1) newRatio\<rparr>"

definition setKneeWidth32 :: "ieee \<Rightarrow> GainComputer32 \<Rightarrow> GainComputer32" where
  "setKneeWidth32 kneeDb g = updateKneeBounds32 (g\<lparr>kneeWidth32 := jmax32 (Finite 0) kneeDb\<rparr>)"

definition computeGainReduction32 :: "GainComputer32 \<Rightarrow> ieee \<Rightarrow> ieee" where
  "computeGainReduction32 g inputDb =
     (let outputDb =
            (if xle inputDb (kneeStart32 g) then inputDb
             else if xle (kneeEnd32 g) inputDb
             then fadd (threshold32 g) (fdiv (fsub inputDb (threshold32 g)) (ratio32 g))
             else
               (let kneePosition = fdiv (fsub inputDb (kneeStart32 g)) (kneeWidth32 g);
                    compressionAmount = fmul (fmul kneePosition kneePosition) (Finite 0.5);
                    slope = fsub (Finite 1) (fdiv (Finite 1) (ratio32 g))
                in fsub inputDb (fmul (fmul slope compressionAmount) (kneeWidth32 g))))
      in fsub outputDb inputDb)"

subsection \<open>EnvelopeFollower, binary32\<close>

text \<open>The sample rate is a \<^verbatim>\<open>double\<close>: a real number.\<close>

record EnvelopeFollower32 =
  ef_sampleRate32 :: real
  attackTimeMs32 :: ieee
  releaseTimeMs32 :: ieee
  envelope32 :: ieee
  peakGainReduction32 :: ieee
  inSlowRelease32 :: bool
  attackCoeff32 :: ieee
  releaseCoeffFast32 :: ieee
  releaseCoeffSlow32 :: ieee

definition EnvelopeFollower32_init :: EnvelopeFollower32 where
  "EnvelopeFollower32_init =
     \<lparr>ef_sampleRate32 = 44100, attackTimeMs32 = Finite 10, releaseTimeMs32 = Finite 100,
      envelope32 = Finite 0, peakGainReduction32 = Finite 0, inSlowRelease32 = False,
      attackCoeff32 = Finite 0, releaseCoeffFast32 = Finite 0, releaseCoeffSlow32 = Finite 0\<rparr>"

text \<open>
  \<^verbatim>\<open>static_cast<float> (std::exp (-1.0 / (sampleRate * t)))\<close>, for a time \<open>t\<close> in
  seconds that is a \<^verbatim>\<open>float\<close> or a \<^verbatim>\<open>double\<close>.
\<close>

definition timeCoeff32 :: "real \<Rightarrow> ieee \<Rightarrow> ieee" where
  "timeCoeff32 sampleRate t = f32 (xexp (xdiv (Finite (- 1)) (xmul (Finite sampleRate) t)))"

definition ef_updateCoefficients32 :: "EnvelopeFollower32 \<Rightarrow> EnvelopeFollower32" where
  "ef_updateCoefficients32 e =
     (if ef_sampleRate32 e \<le> 0 then e
      else
        (let attackTimeSec = fdiv (attackTimeMs32 e) (Finite 1000);
             e1 = e\<lparr>attackCoeff32 := timeCoeff32 (ef_sampleRate32 e) attackTimeSec\<rparr>;
             releaseTimeSec = fdiv (releaseTimeMs32 e1) (Finite 1000);
             fastReleaseTime = fmul releaseTimeSec (fround 0.3);
             e2 = e1\<lparr>releaseCoeffFast32 := timeCoeff32 (ef_sampleRate32 e1) fastReleaseTime\<rparr>;
             slowReleaseTime = fmul releaseTimeSec (Finite 1.5)
         in e2\<lparr>releaseCoeffSlow32 := timeCoeff32 (ef_sampleRate32 e2) slowReleaseTime\<rparr>))"

definition ef_reset32 :: "EnvelopeFollower32 \<Rightarrow> EnvelopeFollower32" where
  "ef_reset32 e =
     e\<lparr>envelope32 := Finite 0, peakGainReduction32 := Finite 0, inSlowRelease32 := False\<rparr>"

definition ef_prepare32 :: "real \<Rightarrow> nat \<Rightarrow> EnvelopeFollower32 \<Rightarrow> EnvelopeFollower32" where
  "ef_prepare32 newSampleRate samplesPerBlock e =
     ef_reset32 (ef_updateCoefficients32 (e\<lparr>ef_sampleRate32 := newSampleRate\<rparr>))"

definition setAttackMs32 :: "ieee \<Rightarrow> EnvelopeFollower32 \<Rightarrow> EnvelopeFollower32" where
  "setAttackMs32 attackMs e =
     ef_updateCoefficients32 (e\<lparr>attackTimeMs32 := jlimit32 (fround 0.1) (Finite 100) attackMs\<rparr>)"

definition setReleaseMs32 :: "ieee \<Rightarrow> EnvelopeFollower32 \<Rightarrow> EnvelopeFollower32" where
  "setReleaseMs32 releaseMs e =
     ef_updateCoefficients32 (e\<lparr>releaseTimeMs32 := jlimit32 (Finite 10) (Finite 1000) releaseMs\<rparr>)"

definition updateReleaseStage32 :: "EnvelopeFollower32 \<Rightarrow> EnvelopeFollower32" where
  "updateReleaseStage32 e =
     (if \<not> inSlowRelease32 e \<and> xlt (envelope32 e) (fmul (peakGainReduction32 e) (Finite 0.5))
      then e\<lparr>inSlowRelease32 := True\<rparr> else e)"

definition releaseCoeff32 :: "EnvelopeFollower32 \<Rightarrow> ieee" where
  "releaseCoeff32 e = (if inSlowRelease32 e then releaseCoeffSlow32 e else releaseCoeffFast32 e)"

definition ef_processSample32 :: "ieee \<Rightarrow> EnvelopeFollower32 \<Rightarrow> EnvelopeFollower32 \<times> ieee" where
  "ef_processSample32 detectionDb e =
     (let detectionLinear = decibelsToGain32 detectionDb (Finite (- 60));
          e' =
            (if xlt (envelope32 e) detectionLinear
             then
               (let e1 = e\<lparr>envelope32 :=
                            fadd (fmul (attackCoeff32 e) (envelope32 e))
                                 (fmul (fsub (Finite 1) (attackCoeff32 e)) detectionLinear)\<rparr>;
                    e2 = e1\<lparr>peakGainReduction32 := envelope32 e1\<rparr>
                in e2\<lparr>inSlowRelease32 := False\<rparr>)
             else
               (let e1 = updateReleaseStage32 e;
                    rc = releaseCoeff32 e1
                in e1\<lparr>envelope32 := fadd (fmul rc (envelope32 e1))
                                          (fmul (fsub (Finite 1) rc) detectionLinear)\<rparr>))
      in (e', gainToDecibels32 (envelope32 e') (Finite (- 60))))"

subsection \<open>SidechainDetector, binary32\<close>









section \<open>Properties\<close>

subsection \<open>GainComputer\<close>

lemma knee_bounds_ok_init: "knee_bounds_ok GainComputer_init"
  by (simp add: knee_bounds_ok_def GainComputer_init_def)

lemma knee_bounds_ok_setThreshold: "knee_bounds_ok (setThreshold t g)"
  by (simp add: knee_bounds_ok_def setThreshold_def updateKneeBounds_def Let_def)

lemma knee_bounds_ok_setKneeWidth: "knee_bounds_ok (setKneeWidth k g)"
  by (simp add: knee_bounds_ok_def setKneeWidth_def updateKneeBounds_def Let_def)

lemma knee_bounds_ok_setRatio: "knee_bounds_ok g \<Longrightarrow> knee_bounds_ok (setRatio r g)"
  by (simp add: knee_bounds_ok_def setRatio_def)

lemma ratio_setRatio: "1 \<le> ratio (setRatio r g)"
  by (simp add: setRatio_def jmax_def)

text \<open>
  Claim C1. With the knee width at 6 dB, for every input level at or above the threshold
  plus 3 dB, \<^verbatim>\<open>computeGainReduction\<close> returns
  \<open>(threshold + (inputDb - threshold) / ratio) - inputDb\<close>, whose magnitude is
  \<open>(inputDb - threshold) * (1 - 1 / ratio)\<close>, the ratio being the one \<^verbatim>\<open>setRatio\<close>
  stored, clamped to at least 1.
\<close>

theorem C1_above_knee:
  assumes "knee_bounds_ok g" and "kneeWidth g = 6" and "threshold g + 3 \<le> inputDb"
  shows "computeGainReduction (setRatio r g) inputDb
           = (threshold g + (inputDb - threshold g) / jmax 1 r) - inputDb
       \<and> \<bar>computeGainReduction (setRatio r g) inputDb\<bar>
           = (inputDb - threshold g) * (1 - 1 / jmax 1 r)"
proof -
  let ?q = "jmax 1 r"
  have q: "1 \<le> ?q" by (simp add: jmax_def)
  have ks: "kneeStart g = threshold g - 3" and ke: "kneeEnd g = threshold g + 3"
    using assms(1,2) by (simp_all add: knee_bounds_ok_def)
  have val: "computeGainReduction (setRatio r g) inputDb
           = (threshold g + (inputDb - threshold g) / ?q) - inputDb"
    using assms(3) ks ke
    by (simp add: computeGainReduction_def setRatio_def aboveKneeOutput_def)
  have d: "0 \<le> inputDb - threshold g" using assms(3) by simp
  have "1 / ?q \<le> 1" using q by simp
  then have s: "0 \<le> 1 - 1 / ?q" by simp
  have alg: "(threshold g + (inputDb - threshold g) / ?q) - inputDb
           = - ((inputDb - threshold g) * (1 - 1 / ?q))"
    by (simp add: algebra_simps)
  have "0 \<le> (inputDb - threshold g) * (1 - 1 / ?q)"
    using d s by (rule mult_nonneg_nonneg)
  then show ?thesis using val alg by simp
qed

theorem C1_above_knee_witness:
  "computeGainReduction (setRatio 4 (setKneeWidth 6 (setThreshold (-20) GainComputer_init))) (-10)
     = - (15 / 2)"
proof -
  let ?g = "setKneeWidth 6 (setThreshold (-20) GainComputer_init)"
  have h1: "knee_bounds_ok ?g" by (rule knee_bounds_ok_setKneeWidth)
  have h2: "kneeWidth ?g = 6"
    by (simp add: setKneeWidth_def updateKneeBounds_def jmax_def)
  have t: "threshold ?g = -20"
    by (simp add: setKneeWidth_def setThreshold_def updateKneeBounds_def)
  have h3: "threshold ?g + 3 \<le> -10" by (simp add: t)
  show ?thesis using C1_above_knee [OF h1 h2 h3, of 4] by (simp add: t jmax_def)
qed

text \<open>
  Claim C2. With the knee width at 6 dB, for every input level below the threshold minus
  3 dB, \<^verbatim>\<open>computeGainReduction\<close> returns 0, whatever the threshold and the ratio.
\<close>

theorem C2_below_knee:
  assumes "knee_bounds_ok g" and "kneeWidth g = 6" and "inputDb < threshold g - 3"
  shows "computeGainReduction g inputDb = 0"
  using assms
  by (simp add: computeGainReduction_def knee_bounds_ok_def belowKneeOutput_def)


theorem C2_below_knee_witness:
  "computeGainReduction (setRatio 4 (setKneeWidth 6 (setThreshold (-20) GainComputer_init))) (-30) = 0"
proof -
  let ?g = "setRatio 4 (setKneeWidth 6 (setThreshold (-20) GainComputer_init))"
  have h1: "knee_bounds_ok ?g"
    by (rule knee_bounds_ok_setRatio) (rule knee_bounds_ok_setKneeWidth)
  have h2: "kneeWidth ?g = 6"
    by (simp add: setRatio_def setKneeWidth_def updateKneeBounds_def jmax_def)
  have t: "threshold ?g = -20"
    by (simp add: setRatio_def setKneeWidth_def setThreshold_def updateKneeBounds_def)
  have h3: "-30 < threshold ?g - 3" by (simp add: t)
  show ?thesis using C2_below_knee [OF h1 h2 h3] .
qed

lemma computeGainReduction_closed_form:
  assumes "knee_bounds_ok g" and "0 < kneeWidth g"
  shows "computeGainReduction g x =
           - (1 - 1 / ratio g) *
             ((min (max (x - kneeStart g) 0) (kneeWidth g))\<^sup>2 / (2 * kneeWidth g)
               + max 0 (x - kneeEnd g))"
proof -
  define q where "q = 1 / ratio g"
  define w where "w = kneeWidth g"
  have w: "0 < w" using assms(2) by (simp add: w_def)
  have ke: "kneeEnd g = kneeStart g + w"
    using assms(1) by (simp add: knee_bounds_ok_def w_def)
  have th: "threshold g = kneeStart g + w / 2"
    using assms(1) by (simp add: knee_bounds_ok_def w_def)
  have dq: "\<And>a. a / ratio g = a * q" by (simp add: q_def)
  have half: "w\<^sup>2 / (2 * w) = w / 2" using w by (simp add: power2_eq_square)
  consider "x \<le> kneeStart g" | "kneeEnd g \<le> x" "kneeStart g < x" | "kneeStart g < x" "x < kneeEnd g"
    by linarith
  then show ?thesis
  proof cases
    case 1
    then have "min (max (x - kneeStart g) 0) w = 0" using w by (simp add: max_def min_def)
    moreover have "max 0 (x - kneeEnd g) = 0" using 1 w ke by simp
    ultimately show ?thesis using 1
      by (simp add: computeGainReduction_def belowKneeOutput_def w_def [symmetric])
  next
    case 2
    then have m: "min (max (x - kneeStart g) 0) w = w"
      using ke by (simp add: max_def min_def)
    have n: "max 0 (x - kneeEnd g) = x - kneeEnd g" using 2 by simp
    have "computeGainReduction g x = threshold g + (x - threshold g) * q - x"
      using 2 by (simp add: computeGainReduction_def aboveKneeOutput_def dq)
    also have "\<dots> = - (1 - q) * (w / 2 + (x - kneeEnd g))"
      by (simp add: th ke field_simps)
    finally show ?thesis by (simp add: m n half w_def [symmetric] q_def [symmetric])
  next
    case 3
    then have m: "min (max (x - kneeStart g) 0) w = x - kneeStart g"
      using ke by (simp add: max_def min_def)
    have n: "max 0 (x - kneeEnd g) = 0" using 3 by simp
    have "computeGainReduction g x
            = - ((1 - q) * ((x - kneeStart g) / w * ((x - kneeStart g) / w) * 0.5) * w)"
      using 3 by (simp add: computeGainReduction_def inKneeOutput_def Let_def q_def w_def)
    also have "\<dots> = - (1 - q) * ((x - kneeStart g)\<^sup>2 / (2 * w))"
      using w by (simp add: power2_eq_square field_simps)
    finally show ?thesis by (simp add: m n w_def [symmetric] q_def [symmetric])
  qed
qed

lemma computeGainReduction_continuous:
  assumes "knee_bounds_ok g" and "0 < kneeWidth g"
  shows "continuous_on UNIV (computeGainReduction g)"
proof -
  have "computeGainReduction g = (\<lambda>x. - (1 - 1 / ratio g) *
             ((min (max (x - kneeStart g) 0) (kneeWidth g))\<^sup>2 / (2 * kneeWidth g)
               + max 0 (x - kneeEnd g)))"
    using computeGainReduction_closed_form [OF assms] by (intro ext)
  moreover have "continuous_on UNIV (\<lambda>x. - (1 - 1 / ratio g) *
             ((min (max (x - kneeStart g) 0) (kneeWidth g))\<^sup>2 / (2 * kneeWidth g)
               + max 0 (x - kneeEnd g)))"
    using assms(2) by (intro continuous_intros) simp
  ultimately show ?thesis by simp
qed

text \<open>
  Claim C3. With the knee width at 6 dB and a ratio of at least 1, the transfer function
  has no jump at either end of the knee: at \<open>kneeStart = threshold - 3\<close> the quadratic
  branch gives the gain reduction of the branch below the knee, 0, and at
  \<open>kneeEnd = threshold + 3\<close> it gives that of the branch above the knee; and
  \<^verbatim>\<open>computeGainReduction\<close> is a continuous function of the input level.
\<close>

theorem C3_continuous_across_knee:
  assumes "knee_bounds_ok g" and "kneeWidth g = 6" and "1 \<le> ratio g"
  shows "inKneeOutput g (kneeStart g) - kneeStart g
           = belowKneeOutput g (kneeStart g) - kneeStart g
       \<and> belowKneeOutput g (kneeStart g) - kneeStart g = 0
       \<and> kneeStart g = threshold g - 3 \<and> kneeEnd g = threshold g + 3
       \<and> inKneeOutput g (kneeEnd g) - kneeEnd g
           = aboveKneeOutput g (kneeEnd g) - kneeEnd g
       \<and> aboveKneeOutput g (kneeEnd g) - kneeEnd g
           = threshold g + (kneeEnd g - threshold g) / ratio g - kneeEnd g
       \<and> continuous_on UNIV (computeGainReduction g)"
proof -
  have ks: "kneeStart g = threshold g - 3" and ke: "kneeEnd g = threshold g + 3"
    using assms(1,2) by (simp_all add: knee_bounds_ok_def)
  have r: "ratio g \<noteq> 0" using assms(3) by simp
  have a: "inKneeOutput g (kneeStart g) - kneeStart g = belowKneeOutput g (kneeStart g) - kneeStart g"
    by (simp add: inKneeOutput_def belowKneeOutput_def)
  have b: "inKneeOutput g (kneeEnd g) - kneeEnd g = aboveKneeOutput g (kneeEnd g) - kneeEnd g"
    using r by (simp add: inKneeOutput_def aboveKneeOutput_def ks ke assms(2) field_simps)
  have c: "continuous_on UNIV (computeGainReduction g)"
    using computeGainReduction_continuous [OF assms(1)] assms(2) by simp
  show ?thesis using a b c ks ke by (simp add: belowKneeOutput_def aboveKneeOutput_def)
qed

theorem C3_continuous_across_knee_witness:
  "inKneeOutput (setRatio 4 (setKneeWidth 6 (setThreshold (-20) GainComputer_init))) (-17) - (-17)
     = aboveKneeOutput (setRatio 4 (setKneeWidth 6 (setThreshold (-20) GainComputer_init))) (-17)
         - (-17)
   \<and> continuous_on UNIV
         (computeGainReduction (setRatio 4 (setKneeWidth 6 (setThreshold (-20) GainComputer_init))))"
proof -
  let ?g = "setRatio 4 (setKneeWidth 6 (setThreshold (-20) GainComputer_init))"
  have h1: "knee_bounds_ok ?g"
    by (rule knee_bounds_ok_setRatio) (rule knee_bounds_ok_setKneeWidth)
  have h2: "kneeWidth ?g = 6"
    by (simp add: setRatio_def setKneeWidth_def updateKneeBounds_def jmax_def)
  have h3: "1 \<le> ratio ?g" by (rule ratio_setRatio)
  have t: "threshold ?g = -20"
    by (simp add: setRatio_def setKneeWidth_def setThreshold_def updateKneeBounds_def)
  note c = C3_continuous_across_knee [OF h1 h2 h3]
  have ke: "kneeEnd ?g = threshold ?g + 3" using c by blast
  have k17: "kneeEnd ?g = -17" unfolding ke t by simp
  have e: "inKneeOutput ?g (kneeEnd ?g) - kneeEnd ?g
             = aboveKneeOutput ?g (kneeEnd ?g) - kneeEnd ?g"
    using c by blast
  have cont: "continuous_on UNIV (computeGainReduction ?g)" using c by blast
  show ?thesis using e [unfolded k17] cont by (rule conjI)
qed

subsection \<open>EnvelopeFollower\<close>

lemma length_ef_phases: "length (ef_phases ds e) = length ds"
  by (induction ds arbitrary: e) simp_all

lemma length_ef_states: "length (ef_states ds e) = length ds"
  by (induction ds arbitrary: e) simp_all

lemma ef_phase_Attack_iff:
  "ef_phase d e = Attack \<longleftrightarrow> decibelsToGain d (- 60) > envelope e"
  by (simp add: ef_phase_def)

lemma ef_phase_SlowRelease_iff:
  "ef_phase d e = SlowRelease \<longleftrightarrow>
     \<not> decibelsToGain d (- 60) > envelope e \<and>
     (inSlowRelease e \<or> envelope e < peakGainReduction e * releaseStageThreshold)"
  by (auto simp add: ef_phase_def updateReleaseStage_def)

lemma ef_release_flag:
  "ef_phase d e \<noteq> Attack \<Longrightarrow>
     inSlowRelease (fst (ef_processSample d e)) = (ef_phase d e = SlowRelease)"
  by (auto simp add: ef_phase_def ef_processSample_def Let_def updateReleaseStage_def
      split: if_splits)

lemma ef_release_peak:
  "ef_phase d e \<noteq> Attack \<Longrightarrow>
     peakGainReduction (fst (ef_processSample d e)) = peakGainReduction e"
  by (auto simp add: ef_phase_def ef_processSample_def Let_def updateReleaseStage_def
      split: if_splits)

lemma ef_attack_resets:
  "ef_phase d e = Attack \<Longrightarrow>
     \<not> inSlowRelease (fst (ef_processSample d e)) \<and>
     peakGainReduction (fst (ef_processSample d e)) = envelope (fst (ef_processSample d e))"
  by (auto simp add: ef_phase_def ef_processSample_def Let_def split: if_splits)

lemma ef_envelope_step:
  "envelope (fst (ef_processSample d e)) =
     phaseCoeff (ef_phase d e) e * envelope e
       + (1 - phaseCoeff (ef_phase d e) e) * decibelsToGain d (- 60)"
  by (auto simp add: ef_phase_def ef_processSample_def Let_def updateReleaseStage_def
      releaseCoeff_def phaseCoeff_def)

lemma ef_slow_stays:
  "inSlowRelease e \<Longrightarrow> j < length ds \<Longrightarrow> \<forall>k\<le>j. ef_phases ds e ! k \<noteq> Attack \<Longrightarrow>
     ef_phases ds e ! j = SlowRelease"
proof (induction ds arbitrary: e j)
  case Nil
  then show ?case by simp
next
  case (Cons d ds)
  have na: "ef_phase d e \<noteq> Attack" using Cons.prems(3) by fastforce
  then have s0: "ef_phase d e = SlowRelease"
    using Cons.prems(1) by (simp add: ef_phase_SlowRelease_iff ef_phase_Attack_iff)
  show ?case
  proof (cases j)
    case 0
    then show ?thesis using s0 by simp
  next
    case (Suc j')
    have f: "inSlowRelease (fst (ef_processSample d e))"
      using ef_release_flag [OF na] s0 by simp
    have "\<forall>k\<le>j'. ef_phases ds (fst (ef_processSample d e)) ! k \<noteq> Attack"
    proof (intro allI impI)
      fix k assume "k \<le> j'"
      then have "Suc k \<le> j" using Suc by simp
      then have "ef_phases (d # ds) e ! Suc k \<noteq> Attack" using Cons.prems(3) by blast
      then show "ef_phases ds (fst (ef_processSample d e)) ! k \<noteq> Attack" by simp
    qed
    moreover have "j' < length ds" using Cons.prems(2) Suc by simp
    ultimately show ?thesis using Cons.IH [OF f] Suc by simp
  qed
qed

lemma ef_no_revert:
  "i < j \<Longrightarrow> j < length ds \<Longrightarrow> ef_phases ds e ! i = SlowRelease \<Longrightarrow>
   \<forall>k. i < k \<and> k \<le> j \<longrightarrow> ef_phases ds e ! k \<noteq> Attack \<Longrightarrow>
   ef_phases ds e ! j = SlowRelease"
proof (induction ds arbitrary: e i j)
  case Nil
  then show ?case by simp
next
  case (Cons d ds)
  obtain j' where j: "j = Suc j'" using Cons.prems(1) by (cases j) simp_all
  have jl: "j' < length ds" using Cons.prems(2) j by simp
  show ?case
  proof (cases i)
    case 0
    then have s0: "ef_phase d e = SlowRelease" using Cons.prems(3) by simp
    then have f: "inSlowRelease (fst (ef_processSample d e))"
      using ef_release_flag [of d e] by simp
    have "\<forall>k\<le>j'. ef_phases ds (fst (ef_processSample d e)) ! k \<noteq> Attack"
    proof (intro allI impI)
      fix k assume "k \<le> j'"
      then have "i < Suc k \<and> Suc k \<le> j" using j 0 by simp
      then have "ef_phases (d # ds) e ! Suc k \<noteq> Attack" using Cons.prems(4) by blast
      then show "ef_phases ds (fst (ef_processSample d e)) ! k \<noteq> Attack" by simp
    qed
    then show ?thesis using ef_slow_stays [OF f jl] j by simp
  next
    case (Suc i')
    have a: "i' < j'" using Cons.prems(1) j Suc by simp
    have b: "ef_phases ds (fst (ef_processSample d e)) ! i' = SlowRelease"
      using Cons.prems(3) Suc by simp
    have c: "\<forall>k. i' < k \<and> k \<le> j' \<longrightarrow> ef_phases ds (fst (ef_processSample d e)) ! k \<noteq> Attack"
    proof (intro allI impI)
      fix k assume "i' < k \<and> k \<le> j'"
      then have "i < Suc k \<and> Suc k \<le> j" using j Suc by simp
      then have "ef_phases (d # ds) e ! Suc k \<noteq> Attack" using Cons.prems(4) by blast
      then show "ef_phases ds (fst (ef_processSample d e)) ! k \<noteq> Attack" by simp
    qed
    show ?thesis using Cons.IH [OF a jl b c] j by simp
  qed
qed

lemma ef_switch_point:
  "j < length ds \<Longrightarrow> \<forall>k\<le>j. ef_phases ds e ! k \<noteq> Attack \<Longrightarrow>
     (ef_phases ds e ! j = SlowRelease \<longleftrightarrow>
        inSlowRelease e \<or>
        (\<exists>k\<le>j. envelope (ef_states ds e ! k) < peakGainReduction e * releaseStageThreshold))"
proof (induction ds arbitrary: e j)
  case Nil
  then show ?case by simp
next
  case (Cons d ds)
  have na: "ef_phase d e \<noteq> Attack" using Cons.prems(2) by fastforce
  then have nd: "\<not> decibelsToGain d (- 60) > envelope e" by (simp add: ef_phase_Attack_iff)
  show ?case
  proof (cases j)
    case 0
    then show ?thesis using nd by (simp add: ef_phase_SlowRelease_iff)
  next
    case (Suc j')
    let ?e1 = "fst (ef_processSample d e)"
    have jl: "j' < length ds" using Cons.prems(1) Suc by simp
    have c: "\<forall>k\<le>j'. ef_phases ds ?e1 ! k \<noteq> Attack"
    proof (intro allI impI)
      fix k assume "k \<le> j'"
      then have "Suc k \<le> j" using Suc by simp
      then have "ef_phases (d # ds) e ! Suc k \<noteq> Attack" using Cons.prems(2) by blast
      then show "ef_phases ds ?e1 ! k \<noteq> Attack" by simp
    qed
    have ih: "ef_phases ds ?e1 ! j' = SlowRelease \<longleftrightarrow>
        inSlowRelease ?e1 \<or>
        (\<exists>k\<le>j'. envelope (ef_states ds ?e1 ! k) < peakGainReduction ?e1 * releaseStageThreshold)"
      by (rule Cons.IH [OF jl c])
    have fl: "inSlowRelease ?e1 \<longleftrightarrow>
        inSlowRelease e \<or> envelope e < peakGainReduction e * releaseStageThreshold"
      using ef_release_flag [OF na] nd by (simp add: ef_phase_SlowRelease_iff)
    have pk: "peakGainReduction ?e1 = peakGainReduction e" by (rule ef_release_peak [OF na])
    have ex: "(\<exists>k\<le>Suc j'. envelope (ef_states (d # ds) e ! k) < peakGainReduction e * releaseStageThreshold)
        \<longleftrightarrow> envelope e < peakGainReduction e * releaseStageThreshold \<or>
            (\<exists>k\<le>j'. envelope (ef_states ds ?e1 ! k) < peakGainReduction e * releaseStageThreshold)"
    proof
      assume "\<exists>k\<le>Suc j'. envelope (ef_states (d # ds) e ! k) < peakGainReduction e * releaseStageThreshold"
      then obtain k where k: "k \<le> Suc j'"
        "envelope (ef_states (d # ds) e ! k) < peakGainReduction e * releaseStageThreshold" by blast
      show "envelope e < peakGainReduction e * releaseStageThreshold \<or>
            (\<exists>k\<le>j'. envelope (ef_states ds ?e1 ! k) < peakGainReduction e * releaseStageThreshold)"
      proof (cases k)
        case 0
        then show ?thesis using k by simp
      next
        case (Suc k')
        then have "k' \<le> j'" using k(1) by simp
        moreover have "envelope (ef_states ds ?e1 ! k') < peakGainReduction e * releaseStageThreshold"
          using k(2) Suc by simp
        ultimately show ?thesis by blast
      qed
    next
      assume "envelope e < peakGainReduction e * releaseStageThreshold \<or>
            (\<exists>k\<le>j'. envelope (ef_states ds ?e1 ! k) < peakGainReduction e * releaseStageThreshold)"
      then show "\<exists>k\<le>Suc j'. envelope (ef_states (d # ds) e ! k) < peakGainReduction e * releaseStageThreshold"
      proof
        assume "envelope e < peakGainReduction e * releaseStageThreshold"
        then have "envelope (ef_states (d # ds) e ! 0) < peakGainReduction e * releaseStageThreshold"
          by simp
        then show ?thesis by blast
      next
        assume "\<exists>k\<le>j'. envelope (ef_states ds ?e1 ! k) < peakGainReduction e * releaseStageThreshold"
        then obtain k where "k \<le> j'"
          "envelope (ef_states ds ?e1 ! k) < peakGainReduction e * releaseStageThreshold" by blast
        then have "Suc k \<le> Suc j' \<and>
          envelope (ef_states (d # ds) e ! Suc k) < peakGainReduction e * releaseStageThreshold"
          by simp
        then show ?thesis by blast
      qed
    qed
    have "ef_phases (d # ds) e ! j = ef_phases ds ?e1 ! j'" using Suc by simp
    then show ?thesis using ih fl pk ex Suc by auto
  qed
qed


lemma ef_phases_nth:
  "j < length ds \<Longrightarrow> ef_phases ds e ! j = ef_phase (ds ! j) (ef_states ds e ! j)"
proof (induction ds arbitrary: e j)
  case Nil
  then show ?case by simp
next
  case (Cons d ds)
  then show ?case by (cases j) simp_all
qed

text \<open>
  Claim C4. Over the samples of any block, from any state of the follower: a sample is an
  attack sample exactly when its linear detection level exceeds the envelope; in a run
  of release samples the slow coefficient is used from the first sample on at which the
  envelope is below 50% of the recorded peak (or the follower already was in the slow
  stage); once a release sample has used the slow coefficient, every later sample uses
  it too unless an attack sample comes in between; and the envelope moves by the
  coefficient of the sample's phase.
\<close>

theorem C4_two_stage_release:
  assumes "j < length ds"
  shows "(ef_phases ds e ! j = Attack \<longleftrightarrow>
            decibelsToGain (ds ! j) (- 60) > envelope (ef_states ds e ! j))
       \<and> ((\<forall>k\<le>j. ef_phases ds e ! k \<noteq> Attack) \<longrightarrow>
            (ef_phases ds e ! j = SlowRelease \<longleftrightarrow>
               inSlowRelease e \<or>
               (\<exists>k\<le>j. envelope (ef_states ds e ! k)
                          < peakGainReduction e * releaseStageThreshold)))
       \<and> (\<forall>i<j. ef_phases ds e ! i = SlowRelease
                  \<and> (\<forall>k. i < k \<and> k \<le> j \<longrightarrow> ef_phases ds e ! k \<noteq> Attack)
                \<longrightarrow> ef_phases ds e ! j = SlowRelease)
       \<and> envelope (fst (ef_processSample (ds ! j) (ef_states ds e ! j)))
           = phaseCoeff (ef_phases ds e ! j) (ef_states ds e ! j) * envelope (ef_states ds e ! j)
             + (1 - phaseCoeff (ef_phases ds e ! j) (ef_states ds e ! j))
               * decibelsToGain (ds ! j) (- 60)"
proof (intro conjI)
  show "ef_phases ds e ! j = Attack \<longleftrightarrow>
            decibelsToGain (ds ! j) (- 60) > envelope (ef_states ds e ! j)"
    by (simp add: ef_phases_nth [OF assms] ef_phase_Attack_iff)
  show "(\<forall>k\<le>j. ef_phases ds e ! k \<noteq> Attack) \<longrightarrow>
            (ef_phases ds e ! j = SlowRelease \<longleftrightarrow>
               inSlowRelease e \<or>
               (\<exists>k\<le>j. envelope (ef_states ds e ! k)
                          < peakGainReduction e * releaseStageThreshold))"
    using ef_switch_point [OF assms] by blast
  show "\<forall>i<j. ef_phases ds e ! i = SlowRelease
                  \<and> (\<forall>k. i < k \<and> k \<le> j \<longrightarrow> ef_phases ds e ! k \<noteq> Attack)
                \<longrightarrow> ef_phases ds e ! j = SlowRelease"
    using ef_no_revert [OF _ assms] by blast
  show "envelope (fst (ef_processSample (ds ! j) (ef_states ds e ! j)))
           = phaseCoeff (ef_phases ds e ! j) (ef_states ds e ! j) * envelope (ef_states ds e ! j)
             + (1 - phaseCoeff (ef_phases ds e ! j) (ef_states ds e ! j))
               * decibelsToGain (ds ! j) (- 60)"
    by (simp add: ef_phases_nth [OF assms] ef_envelope_step)
qed

theorem C4_two_stage_release_witness:
  "ef_phases [- 100, - 100, - 100]
     (EnvelopeFollower_init\<lparr>envelope := 1, peakGainReduction := 1,
        releaseCoeffFast := 1 / 4, releaseCoeffSlow := 1 / 2\<rparr>) ! 0 = FastRelease
   \<and> ef_phases [- 100, - 100, - 100]
     (EnvelopeFollower_init\<lparr>envelope := 1, peakGainReduction := 1,
        releaseCoeffFast := 1 / 4, releaseCoeffSlow := 1 / 2\<rparr>) ! 1 = SlowRelease
   \<and> ef_phases [- 100, - 100, - 100]
     (EnvelopeFollower_init\<lparr>envelope := 1, peakGainReduction := 1,
        releaseCoeffFast := 1 / 4, releaseCoeffSlow := 1 / 2\<rparr>) ! 2 = SlowRelease"
proof -
  let ?e = "EnvelopeFollower_init\<lparr>envelope := 1, peakGainReduction := 1,
        releaseCoeffFast := 1 / 4, releaseCoeffSlow := 1 / 2\<rparr>"
  let ?ds = "[- 100, - 100, - 100] :: real list"
  have ev: "ef_phases ?ds ?e = [FastRelease, SlowRelease, ef_phases ?ds ?e ! 2]"
    and na: "ef_phases ?ds ?e ! 2 \<noteq> Attack"
    by (simp_all add: ef_phase_def ef_processSample_def updateReleaseStage_def releaseCoeff_def
        decibelsToGain_def releaseStageThreshold_def EnvelopeFollower_init_def Let_def)
  have p0: "ef_phases ?ds ?e ! 0 = FastRelease" and p1: "ef_phases ?ds ?e ! 1 = SlowRelease"
    by (subst ev, simp)+
  have len: "(2::nat) < length ?ds" by simp
  have k: "\<forall>k. 1 < k \<and> k \<le> 2 \<longrightarrow> ef_phases ?ds ?e ! k \<noteq> Attack"
  proof (intro allI impI)
    fix k :: nat assume "1 < k \<and> k \<le> 2"
    then have "k = 2" by simp
    then show "ef_phases ?ds ?e ! k \<noteq> Attack" using na by simp
  qed
  have "\<forall>i<2. ef_phases ?ds ?e ! i = SlowRelease
                  \<and> (\<forall>k. i < k \<and> k \<le> 2 \<longrightarrow> ef_phases ?ds ?e ! k \<noteq> Attack)
                \<longrightarrow> ef_phases ?ds ?e ! 2 = SlowRelease"
    using C4_two_stage_release [OF len, of ?e] by blast
  then have "ef_phases ?ds ?e ! 2 = SlowRelease" using p1 k by (metis one_less_numeral_iff semiring_norm(76))
  then show ?thesis using p0 p1 by blast
qed

subsection \<open>SidechainDetector\<close>

lemma sum_list_update_real:
  "i < length xs \<Longrightarrow> sum_list (xs[i := v]) = sum_list xs - xs ! i + (v::real)"
proof (induction xs arbitrary: i)
  case Nil
  then show ?case by simp
next
  case (Cons x xs)
  then show ?case by (cases i) simp_all
qed

lemma list_all_update:
  "list_all P xs \<Longrightarrow> P v \<Longrightarrow> list_all P (xs[i := v])"
  using set_update_subset_insert [of xs i v] by (auto simp add: list_all_iff)

lemma rmsWindowSize_sd_prepare:
  "rmsWindowSize (sd_prepare sr n d) = nat (max 1 (static_cast_int (sr * 0.01)))"
  by (simp add: sd_prepare_def Let_def)

lemma rmsWindowSize_sd_prepare_pos: "0 < rmsWindowSize (sd_prepare sr n d)"
  by (simp add: rmsWindowSize_sd_prepare)

lemma rmsBuffer_sd_prepare:
  "rmsBuffer (sd_prepare sr n d) =
     vector_resize (rmsWindowSize (sd_prepare sr n d)) 0 (rmsBuffer d)"
  by (simp add: sd_prepare_def Let_def)

lemma length_vector_resize: "length (vector_resize n v xs) = n"
  by (simp add: vector_resize_def)

lemma sd_indexed_sd_prepare: "sd_indexed (sd_prepare sr n d)"
  using rmsWindowSize_sd_prepare_pos [of sr n d]
  by (simp add: sd_indexed_def rmsBuffer_sd_prepare length_vector_resize)
     (simp add: sd_prepare_def Let_def)

lemma sd_sum_ok_prepare_init: "sd_sum_ok (sd_prepare sr n SidechainDetector_init)"
proof -
  have "rmsBuffer (sd_prepare sr n SidechainDetector_init)
          = replicate (rmsWindowSize (sd_prepare sr n SidechainDetector_init)) 0"
    by (simp add: rmsBuffer_sd_prepare vector_resize_def SidechainDetector_init_def)
  moreover have "rmsSum (sd_prepare sr n SidechainDetector_init) = 0"
    by (simp add: sd_prepare_def Let_def)
  ultimately show ?thesis
    using sd_indexed_sd_prepare [of sr n SidechainDetector_init]
    by (simp add: sd_sum_ok_def list_all_iff sum_list_replicate)
qed

lemma sd_sum_ok_reset: "sd_indexed d \<Longrightarrow> sd_sum_ok (sd_reset d)"
  by (auto simp add: sd_sum_ok_def sd_indexed_def sd_reset_def list_all_iff sum_list_replicate)

lemma sd_processSample_indexed:
  assumes "sd_indexed d"
  shows "\<exists>d' y. sd_processSample l r d = Some (d', y) \<and> sd_indexed d'
           \<and> rmsWindowSize d' = rmsWindowSize d"
  using assms by (simp add: sd_processSample_def sd_indexed_def Let_def)

lemma sd_processSample_sum_ok:
  assumes "sd_sum_ok d"
  shows "\<exists>d' y. sd_processSample l r d = Some (d', y) \<and> sd_sum_ok d'"
proof -
  have i: "rmsWriteIndex d < length (rmsBuffer d)" and w: "0 < rmsWindowSize d"
    and len: "length (rmsBuffer d) = rmsWindowSize d"
    using assms by (auto simp add: sd_sum_ok_def sd_indexed_def)
  have s: "rmsSum d = sum_list (rmsBuffer d)" and nn: "list_all (\<lambda>x. 0 \<le> x) (rmsBuffer d)"
    using assms by (simp_all add: sd_sum_ok_def)
  let ?m = "(l + r) * 0.5"
  have nn': "list_all (\<lambda>x. 0 \<le> x) ((rmsBuffer d)[rmsWriteIndex d := ?m * ?m])"
    using nn by (rule list_all_update) simp
  have s': "rmsSum d - rmsBuffer d ! rmsWriteIndex d + ?m * ?m
              = sum_list ((rmsBuffer d)[rmsWriteIndex d := ?m * ?m])"
    using sum_list_update_real [OF i] s by simp
  show ?thesis
    using i w len nn' s'
    by (simp add: sd_processSample_def Let_def sd_sum_ok_def sd_indexed_def)
qed

lemma sd_processBlock_sum_ok:
  "sd_sum_ok d \<Longrightarrow> \<exists>d' ys. sd_processBlock xs d = Some (d', ys) \<and> sd_sum_ok d'"
proof (induction xs arbitrary: d)
  case Nil
  then show ?case by simp
next
  case (Cons x xs)
  obtain l r where x: "x = (l, r)" by (cases x)
  obtain d1 y where 1: "sd_processSample l r d = Some (d1, y)" and ok1: "sd_sum_ok d1"
    using sd_processSample_sum_ok [OF Cons.prems] by blast
  obtain d2 ys where 2: "sd_processBlock xs d1 = Some (d2, ys)" and ok2: "sd_sum_ok d2"
    using Cons.IH [OF ok1] by blast
  show ?case using x 1 2 ok2 by simp
qed

lemma sd_sum_ok_nonneg: "sd_sum_ok d \<Longrightarrow> 0 \<le> rmsSum d / real (rmsWindowSize d)"
proof -
  assume a: "sd_sum_ok d"
  then have "\<forall>x\<in>set (rmsBuffer d). 0 \<le> x" by (simp add: sd_sum_ok_def list_all_iff)
  then have "0 \<le> sum_list (rmsBuffer d)" by (simp add: sum_list_nonneg)
  then show ?thesis using a by (simp add: sd_sum_ok_def)
qed

text \<open>
  In exact arithmetic, from a detector prepared right after its construction, or reset
  after a \<^verbatim>\<open>prepare\<close>, every sequence of \<^verbatim>\<open>processSample\<close> calls returns
  and leaves the running sum equal to the sum of the entries of the window, every entry
  non-negative, and so the argument of the square root non-negative.
\<close>

lemma sd_running_sum_exact:
  assumes "d0 = sd_prepare sr n SidechainDetector_init \<or> (sd_indexed d \<and> d0 = sd_reset d)"
  shows "\<exists>d' ys. sd_processBlock xs d0 = Some (d', ys)
           \<and> length (rmsBuffer d') = rmsWindowSize d'
           \<and> rmsSum d' = sum_list (rmsBuffer d')
           \<and> list_all (\<lambda>x. 0 \<le> x) (rmsBuffer d')
           \<and> 0 \<le> rmsSum d' / real (rmsWindowSize d')"
proof -
  have "sd_sum_ok d0" using assms sd_sum_ok_prepare_init sd_sum_ok_reset by blast
  then obtain d' ys where 1: "sd_processBlock xs d0 = Some (d', ys)" and ok: "sd_sum_ok d'"
    using sd_processBlock_sum_ok by blast
  show ?thesis using 1 ok sd_sum_ok_nonneg [OF ok] by (simp add: sd_sum_ok_def sd_indexed_def)
qed

lemma static_cast_int_of_int: "static_cast_int (of_int k) = k"
  by (simp add: static_cast_int_def)
lemma static_cast_441: "static_cast_int (44100 * 0.01) = 441"
  using static_cast_int_of_int [of 441] by simp
lemma static_cast_480: "static_cast_int (48000 * 0.01) = 480"
  using static_cast_int_of_int [of 480] by simp

lemma sd_prepare_keeps_entries:
  assumes "i < length (rmsBuffer d)" and "i < rmsWindowSize (sd_prepare sr n d)"
  shows "rmsBuffer (sd_prepare sr n d) ! i = rmsBuffer d ! i"
  using assms by (simp add: rmsBuffer_sd_prepare vector_resize_def nth_append)

text \<open>
  Claim C5 says that after \<^verbatim>\<open>prepare\<close> the window holds only zeros. It does not when
  the detector has been used: \<^verbatim>\<open>resize\<close> keeps the entries the vector has. A detector
  prepared at 44100 Hz that has processed the sample pair (1, 1) and is prepared again
  at 48000 Hz has 1 as the first entry of its window of 480, and the running sum 0; the
  next sample pair (0, 0) makes the running sum -1.
\<close>

theorem C5_prepare_keeps_window:
  "sd_processSample 1 1 (sd_prepare 44100 512 SidechainDetector_init) \<noteq> None
   \<and> rmsBuffer (sd_prepare 48000 512
         (fst (the (sd_processSample 1 1 (sd_prepare 44100 512 SidechainDetector_init))))) ! 0 = 1
   \<and> rmsSum (sd_prepare 48000 512
         (fst (the (sd_processSample 1 1 (sd_prepare 44100 512 SidechainDetector_init))))) = 0
   \<and> rmsWindowSize (sd_prepare 48000 512
         (fst (the (sd_processSample 1 1 (sd_prepare 44100 512 SidechainDetector_init))))) = 480
   \<and> rmsSum (fst (the (sd_processSample 0 0 (sd_prepare 48000 512
         (fst (the (sd_processSample 1 1 (sd_prepare 44100 512 SidechainDetector_init)))))))) = - 1"
proof -
  let ?d0 = "sd_prepare 44100 512 SidechainDetector_init"
  have w0: "rmsWindowSize ?d0 = 441" using static_cast_441 by (simp add: rmsWindowSize_sd_prepare)
  have ix: "sd_indexed ?d0" by (rule sd_indexed_sd_prepare)
  have len0: "length (rmsBuffer ?d0) = 441" using ix w0 by (simp add: sd_indexed_def)
  have idx0: "rmsWriteIndex ?d0 = 0" by (simp add: sd_prepare_def Let_def)
  obtain d1 y where 1: "sd_processSample 1 1 ?d0 = Some (d1, y)"
    using sd_processSample_indexed [OF ix] by blast
  have b1: "rmsBuffer d1 = (rmsBuffer ?d0)[0 := 1]"
    using 1 len0 idx0 w0 by (auto simp add: sd_processSample_def Let_def split: if_splits)
  have n1: "rmsBuffer d1 ! 0 = 1" and l1: "length (rmsBuffer d1) = 441"
    using len0 by (simp_all add: b1)
  let ?d2 = "sd_prepare 48000 512 d1"
  have w2: "rmsWindowSize ?d2 = 480"
    using static_cast_480 by (simp add: rmsWindowSize_sd_prepare)
  have "rmsBuffer ?d2 ! 0 = rmsBuffer d1 ! 0"
    by (rule sd_prepare_keeps_entries) (simp_all add: l1 w2)
  then have n2: "rmsBuffer ?d2 ! 0 = 1" using n1 by simp
  have s2: "rmsSum ?d2 = 0" and idx2: "rmsWriteIndex ?d2 = 0"
    by (simp_all add: sd_prepare_def Let_def)
  have len2: "length (rmsBuffer ?d2) = 480"
    using sd_indexed_sd_prepare [of 48000 512 d1] w2 by (simp add: sd_indexed_def)
  obtain d3 z where 3: "sd_processSample 0 0 ?d2 = Some (d3, z)"
    using sd_processSample_indexed [OF sd_indexed_sd_prepare] by blast
  have s3: "rmsSum d3 = - 1"
    using 3 len2 idx2 w2 n2 s2 by (auto simp add: sd_processSample_def Let_def split: if_splits)
  show ?thesis using n2 s2 w2 s3 unfolding 1 3 by (simp add: 3)
qed

theorem C5_prepare_keeps_window_witness:
  "rmsBuffer (sd_prepare 48000 512
     (fst (the (sd_processSample 1 1 (sd_prepare 44100 512 SidechainDetector_init)))))
     \<noteq> replicate 480 0"
proof -
  have "rmsBuffer (sd_prepare 48000 512
         (fst (the (sd_processSample 1 1 (sd_prepare 44100 512 SidechainDetector_init))))) ! 0 = 1"
    using C5_prepare_keeps_window by blast
  moreover have "replicate 480 (0::real) ! 0 = 0" by simp
  ultimately show ?thesis by auto
qed

subsection \<open>The saturation stages\<close>

lemma drive_setDrive_0: "drive (setDrive 0 t) = 0"
  by (simp add: setDrive_def jlimit_def Let_def)

lemma colorAmount_setAmount_0: "colorAmount (setAmount J 0 t) = 0"
  by (simp add: setAmount_def jlimit_def Let_def)

text \<open>
  Claim C8. With the drive at 0 (FAT at 0%) \<^verbatim>\<open>TubeSaturation::processBlock\<close>
  returns the buffer it is given and leaves its filters as they are: no filter runs.
  \<^verbatim>\<open>TransformerColoration::processBlock\<close> does so with the colour amount at 0.
\<close>

theorem C8_bypass:
  "ts_processBlock J (setDrive 0 t) buffer = (setDrive 0 t, buffer)
   \<and> ts_processBlock J (setDrive (0 / 100) t) buffer = (setDrive (0 / 100) t, buffer)
   \<and> tc_processBlock J (setAmount J 0 c) buffer = (setAmount J 0 c, buffer)
   \<and> tc_processBlock J (setAmount J (0 / 100) c) buffer = (setAmount J (0 / 100) c, buffer)"
  by (simp add: ts_processBlock_def tc_processBlock_def drive_setDrive_0 colorAmount_setAmount_0)

theorem C8_bypass_witness:
  "snd (ts_processBlock passIIR (setDrive 0 (TubeSaturation_init ()))
          \<lparr>bufNumSamples = 2, bufChannels = [[1, - 1 / 2], [1 / 4, 0]]\<rparr>)
     = \<lparr>bufNumSamples = 2, bufChannels = [[1, - 1 / 2], [1 / 4, 0]]\<rparr>
   \<and> snd (tc_processBlock passIIR (setAmount passIIR 0 (TransformerColoration_init ()))
          \<lparr>bufNumSamples = 2, bufChannels = [[1, - 1 / 2], [1 / 4, 0]]\<rparr>)
     = \<lparr>bufNumSamples = 2, bufChannels = [[1, - 1 / 2], [1 / 4, 0]]\<rparr>"
  using C8_bypass [of passIIR "TubeSaturation_init ()"
      "\<lparr>bufNumSamples = 2, bufChannels = [[1, - 1 / 2], [1 / 4, 0]]\<rparr>"
      "TransformerColoration_init ()"]
  by simp

subsection \<open>Buffers and their shape\<close>

lemma gainToDecibels_floor: "m \<le> gainToDecibels g m"
  by (simp add: gainToDecibels_def jmax_def)

lemma gainToDecibels_0: "gainToDecibels 0 m = m"
  by (simp add: gainToDecibels_def)

lemma getMagnitude_0: "getMagnitude buffer channel startSample 0 = 0"
  by (simp add: getMagnitude_def)

lemma same_shape_refl: "same_shape b b"
  by (simp add: same_shape_def)

lemma same_shape_sym: "same_shape a b \<Longrightarrow> same_shape b a"
  by (simp add: same_shape_def)

lemma same_shape_trans: "same_shape a b \<Longrightarrow> same_shape b c \<Longrightarrow> same_shape a c"
  by (simp add: same_shape_def)

lemma same_shape_channels: "same_shape a b \<Longrightarrow> getNumChannels a = getNumChannels b"
  by (auto simp add: same_shape_def getNumChannels_def dest: map_eq_imp_length_eq)

lemma buffer_ok_iff: "buffer_ok b \<longleftrightarrow> map length (bufChannels b) = replicate (length (bufChannels b)) (bufNumSamples b)"
  by (auto simp add: buffer_ok_def list_all_iff map_replicate_const[symmetric] map_eq_conv
      simp del: map_replicate_const)

lemma same_shape_buffer_ok: "same_shape a b \<Longrightarrow> buffer_ok b \<Longrightarrow> buffer_ok a"
proof -
  assume s: "same_shape a b" and ok: "buffer_ok b"
  have l: "length (bufChannels a) = length (bufChannels b)"
    using same_shape_channels [OF s] by (simp add: getNumChannels_def)
  show ?thesis using s ok l by (simp add: buffer_ok_iff same_shape_def)
qed

lemma same_shape_update:
  "map length chs = map length (bufChannels b) \<Longrightarrow> same_shape (b\<lparr>bufChannels := chs\<rparr>) b"
  by (simp add: same_shape_def)

lemma same_shape_clearChannel: "same_shape (clearChannel ch b) b"
proof -
  have "map length ((bufChannels b)[ch := map (\<lambda>x. 0) (bufChannels b ! ch)])
          = (map length (bufChannels b))[ch := length (bufChannels b ! ch)]"
    by (simp add: map_update)
  also have "\<dots> = map length (bufChannels b)"
    by (metis list_update_beyond list_update_id length_map not_le nth_map)
  finally show ?thesis by (simp add: clearChannel_def same_shape_def)
qed

lemma same_shape_fold_clearChannel: "same_shape (fold clearChannel chs b) b"
proof (induction chs arbitrary: b)
  case Nil
  show ?case by (simp add: same_shape_refl)
next
  case (Cons c chs)
  show ?case using Cons [of "clearChannel c b"] same_shape_clearChannel [of c b]
    by (auto intro: same_shape_trans)
qed

lemma clearUnusedChannels_Some:
  assumes "\<not> (nIn < nOut \<and> getNumChannels b < nOut)"
  shows "\<exists>b'. clearUnusedChannels nIn nOut b = Some b' \<and> same_shape b' b"
  using assms same_shape_fold_clearChannel by (simp add: clearUnusedChannels_def)

lemma clearUnusedChannels_none_unused:
  "nOut \<le> nIn \<Longrightarrow> clearUnusedChannels nIn nOut b = Some b"
  by (simp add: clearUnusedChannels_def)

lemma iir_in_placeD:
  "iir_in_place J \<Longrightarrow> map length (snd (iir_process J block f)) = map length block"
  by (simp add: iir_in_place_def)

lemma map_length_table:
  "map length (map (\<lambda>ch. map (g ch) [0..<n]) [0..<c]) = replicate c n"
  by (rule nth_equalityI) simp_all

lemma map_length_per_channel:
  "map length (map (\<lambda>channel. map (g channel) (chs ! channel)) [0..<length chs]) = map length chs"
  by (rule nth_equalityI) simp_all

lemma same_shape_ts_processBlock:
  assumes "iir_in_place J" and "buffer_ok b"
  shows "same_shape (snd (ts_processBlock J t b)) b"
proof -
  consider "drive t < 0.001" | "\<not> drive t < 0.001" by blast
  then show ?thesis
  proof cases
    case 1
    then show ?thesis by (simp add: ts_processBlock_def same_shape_refl)
  next
    case 2
    have ok: "replicate (length (bufChannels b)) (bufNumSamples b) = map length (bufChannels b)"
      using assms(2) by (simp only: buffer_ok_iff)
    define lowData where "lowData = map (map (ts_processSample t))
        (snd (iir_process J (bufChannels b) (lowpassForSat t)))"
    define highBand where "highBand = snd (iir_process J (bufChannels b) (highpassForClean t))"
    define outData where "outData = map (\<lambda>ch. map (\<lambda>sample.
        lowData ! ch ! sample + highBand ! ch ! sample * (1 - drive t * 0.3))
        [0..<bufNumSamples b]) [0..<length (bufChannels b)]"
    have r: "snd (ts_processBlock J t b)
               = b\<lparr>bufChannels := snd (iir_process J outData (dcBlocker t))\<rparr>"
      using 2 by (simp add: ts_processBlock_def Let_def split_def getNumSamples_def
          getNumChannels_def outData_def lowData_def highBand_def)
    have "map length (snd (iir_process J outData (dcBlocker t))) = map length outData"
      by (rule iir_in_placeD [OF assms(1)])
    also have "\<dots> = replicate (length (bufChannels b)) (bufNumSamples b)"
      unfolding outData_def by (rule map_length_table)
    also have "\<dots> = map length (bufChannels b)" by (rule ok)
    finally show ?thesis unfolding r by (rule same_shape_update)
  qed
qed

lemma same_shape_tc_processBlock:
  assumes "iir_in_place J"
  shows "same_shape (snd (tc_processBlock J t b)) b"
proof -
  consider "colorAmount t < 0.001" | "\<not> colorAmount t < 0.001" by blast
  then show ?thesis
  proof cases
    case 1
    then show ?thesis by (simp add: tc_processBlock_def same_shape_refl)
  next
    case 2
    define data where "data = map (\<lambda>channel. map (tc_processSample t channel)
        (bufChannels b ! channel)) [0..<length (bufChannels b)]"
    have r: "snd (tc_processBlock J t b)
               = b\<lparr>bufChannels := snd (iir_process J (snd (iir_process J data (lowShelf t)))
                                       (highShelf t))\<rparr>"
      using 2 by (simp add: tc_processBlock_def Let_def split_def getNumChannels_def data_def)
    have "map length (snd (iir_process J (snd (iir_process J data (lowShelf t))) (highShelf t)))
            = map length data"
      by (simp only: iir_in_placeD [OF assms])
    also have "\<dots> = map length (bufChannels b)"
      unfolding data_def by (rule map_length_per_channel)
    finally show ?thesis unfolding r by (rule same_shape_update)
  qed
qed

lemma sampleGainReduction_Some:
  assumes "sd_indexed sd"
  shows "\<exists>sd1 ef1 grDb. sampleGainReduction g sample sd ef b = Some (sd1, ef1, grDb)
           \<and> sd_indexed sd1"
proof -
  let ?l = "getSample b 0 sample"
  let ?r = "if getNumChannels b > 1 then getSample b 1 sample else ?l"
  obtain sd1 y where 1: "sd_processSample ?l ?r sd = Some (sd1, y)" and 2: "sd_indexed sd1"
    using sd_processSample_indexed [OF assms, of ?l ?r] by blast
  show ?thesis using 1 2 by (simp add: sampleGainReduction_def Let_def split_def)
qed

lemma compressSample_Some:
  assumes "sd_indexed sd"
  shows "\<exists>sd1 ef1 b1 pk1. compressSample g sample (sd, ef, b, pk) = Some (sd1, ef1, b1, pk1)
           \<and> sd_indexed sd1 \<and> same_shape b1 b \<and> pk1 \<le> pk"
proof -
  obtain sd1 ef1 grDb where 1: "sampleGainReduction g sample sd ef b = Some (sd1, ef1, grDb)"
    and 2: "sd_indexed sd1"
    using sampleGainReduction_Some [OF assms] by blast
  have "map length (map (\<lambda>channelData. channelData[sample := channelData ! sample * c])
                        (bufChannels b)) = map length (bufChannels b)" for c
    by simp
  then show ?thesis using 1 2
    by (simp add: compressSample_def Let_def same_shape_def comp_def)
qed

lemma compressLoop_Some:
  "sd_indexed sd \<Longrightarrow>
     \<exists>sd1 ef1 b1 pk1. compressLoop g samples (sd, ef, b, pk) = Some (sd1, ef1, b1, pk1)
           \<and> sd_indexed sd1 \<and> same_shape b1 b \<and> pk1 \<le> pk"
proof (induction samples arbitrary: sd ef b pk)
  case Nil
  then show ?case by (simp add: same_shape_refl)
next
  case (Cons s samples)
  obtain sd1 ef1 b1 pk1 where 1: "compressSample g s (sd, ef, b, pk) = Some (sd1, ef1, b1, pk1)"
    and i1: "sd_indexed sd1" and s1: "same_shape b1 b" and p1: "pk1 \<le> pk"
    using compressSample_Some [OF Cons.prems] by blast
  obtain sd2 ef2 b2 pk2 where 2: "compressLoop g samples (sd1, ef1, b1, pk1) = Some (sd2, ef2, b2, pk2)"
    and i2: "sd_indexed sd2" and s2: "same_shape b2 b1" and p2: "pk2 \<le> pk1"
    using Cons.IH [OF i1] by blast
  show ?case using 1 2 i2 same_shape_trans [OF s2 s1] p1 p2 by simp
qed

lemma compressLoop_Nil: "compressLoop g [] st = Some st"
  by simp

subsection \<open>The mix loop with the mix smoother at rest at 0\<close>

lemma getNextValue_settled:
  "countdown v \<le> 0 \<Longrightarrow> getNextValue v = (v, target v)"
  by (simp add: getNextValue_def isSmoothing_def)

lemma mixSample_dry:
  assumes "countdown m \<le> 0" and "target m = 0"
  shows "\<exists>o'. mixSample dry s (ou, m, w) = (o', m, w[s := dry ! s])"
  using assms by (simp add: mixSample_def Let_def split_def getNextValue_settled)

lemma fold_mixSample_dry:
  assumes "countdown m \<le> 0" and "target m = 0"
  shows "k \<le> length w \<Longrightarrow> length w = length dry \<Longrightarrow>
     \<exists>o'. fold (mixSample dry) [0..<k] (ou, m, w) = (o', m, take k dry @ drop k w)"
proof (induction k)
  case 0
  then show ?case by simp
next
  case (Suc k)
  then obtain o1 where 1: "fold (mixSample dry) [0..<k] (ou, m, w) = (o1, m, take k dry @ drop k w)"
    by auto
  obtain o2 where 2: "mixSample dry k (o1, m, take k dry @ drop k w)
                       = (o2, m, (take k dry @ drop k w)[k := dry ! k])"
    using mixSample_dry [OF assms] by blast
  have kl: "k < length dry" "k < length w" using Suc.prems by simp_all
  have "(take k dry @ drop k w)[k := dry ! k] = take k dry @ (drop k w)[0 := dry ! k]"
    using kl by (simp add: list_update_append)
  also have "(drop k w)[0 := dry ! k] = dry ! k # drop (Suc k) w"
    using kl by (simp add: Cons_nth_drop_Suc [symmetric])
  also have "take k dry @ dry ! k # drop (Suc k) w = take (Suc k) dry @ drop (Suc k) w"
    using kl by (simp add: take_Suc_conv_app_nth)
  finally have 3: "(take k dry @ drop k w)[k := dry ! k] = take (Suc k) dry @ drop (Suc k) w" .
  show ?case using 1 2 3 by simp
qed

lemma mixChannel_dry:
  assumes "countdown m \<le> 0" and "target m = 0" and "mixParam prm = 0"
    and "length (bufChannels b ! c) = n" and "length (bufChannels dry ! c) = n"
  shows "\<exists>o' m'. mixChannel prm dry n c (ou, m, b)
                  = (o', m', b\<lparr>bufChannels := (bufChannels b)[c := bufChannels dry ! c]\<rparr>)
               \<and> countdown m' \<le> 0 \<and> target m' = 0"
proof -
  obtain o1 where 1: "fold (mixSample (bufChannels dry ! c)) [0..<n] (ou, m, bufChannels b ! c)
       = (o1, m, take n (bufChannels dry ! c) @ drop n (bufChannels b ! c))"
    using fold_mixSample_dry [OF assms(1,2), of n "bufChannels b ! c" "bufChannels dry ! c" ou]
      assms(4,5) by auto
  show ?thesis using 1 assms(3,4,5)
    by (simp add: mixChannel_def Let_def setCurrentAndTargetValue_def)
qed

lemma fold_mixChannel_dry:
  assumes "mixParam prm = 0"
    and "length (bufChannels b) = length (bufChannels dry)"
    and "\<forall>c < length (bufChannels dry). length (bufChannels dry ! c) = n"
  shows "k \<le> length (bufChannels dry) \<Longrightarrow> countdown m \<le> 0 \<Longrightarrow> target m = 0 \<Longrightarrow>
     \<forall>c < length (bufChannels b). length (bufChannels b ! c) = n \<Longrightarrow>
     \<exists>o' m'. fold (mixChannel prm dry n) [0..<k] (ou, m, b)
                = (o', m', b\<lparr>bufChannels := take k (bufChannels dry) @ drop k (bufChannels b)\<rparr>)
              \<and> countdown m' \<le> 0 \<and> target m' = 0"
proof (induction k)
  case 0
  then show ?case by simp
next
  case (Suc k)
  let ?bk = "b\<lparr>bufChannels := take k (bufChannels dry) @ drop k (bufChannels b)\<rparr>"
  obtain o1 m1 where 1: "fold (mixChannel prm dry n) [0..<k] (ou, m, b) = (o1, m1, ?bk)"
    and c1: "countdown m1 \<le> 0" and t1: "target m1 = 0"
    using Suc by force
  have kl: "k < length (bufChannels dry)" "k < length (bufChannels b)"
    using Suc.prems(1) assms(2) by simp_all
  have nk: "bufChannels ?bk ! k = bufChannels b ! k"
    using kl by (simp add: nth_append)
  have lw: "length (bufChannels ?bk ! k) = n" using nk Suc.prems(4) kl by simp
  have ld: "length (bufChannels dry ! k) = n" using assms(3) kl by simp
  obtain o2 m2 where 2: "mixChannel prm dry n k (o1, m1, ?bk)
       = (o2, m2, ?bk\<lparr>bufChannels := (bufChannels ?bk)[k := bufChannels dry ! k]\<rparr>)"
    and c2: "countdown m2 \<le> 0" and t2: "target m2 = 0"
    using mixChannel_dry [OF c1 t1 assms(1) lw ld] by blast
  have "(take k (bufChannels dry) @ drop k (bufChannels b))[k := bufChannels dry ! k]
          = take k (bufChannels dry) @ (drop k (bufChannels b))[0 := bufChannels dry ! k]"
    using kl by (simp add: list_update_append)
  also have "(drop k (bufChannels b))[0 := bufChannels dry ! k]
          = bufChannels dry ! k # drop (Suc k) (bufChannels b)"
    using kl by (simp add: Cons_nth_drop_Suc [symmetric])
  also have "take k (bufChannels dry) @ bufChannels dry ! k # drop (Suc k) (bufChannels b)
          = take (Suc k) (bufChannels dry) @ drop (Suc k) (bufChannels b)"
    using kl by (simp add: take_Suc_conv_app_nth)
  finally have 3: "(take k (bufChannels dry) @ drop k (bufChannels b))[k := bufChannels dry ! k]
          = take (Suc k) (bufChannels dry) @ drop (Suc k) (bufChannels b)" .
  show ?case using 1 2 3 c2 t2 by simp
qed

lemma mixLoop_dry:
  assumes "mixParam prm = 0" and "countdown m \<le> 0" and "target m = 0"
    and "same_shape b dry" and "buffer_ok dry"
  shows "\<exists>o' m'. mixLoop prm dry (bufNumSamples dry) (ou, m, b) = (o', m', dry)"
proof -
  have l: "length (bufChannels b) = length (bufChannels dry)"
    using same_shape_channels [OF assms(4)] by (simp add: getNumChannels_def)
  have okb: "buffer_ok b" by (rule same_shape_buffer_ok [OF assms(4,5)])
  have n: "bufNumSamples b = bufNumSamples dry" using assms(4) by (simp add: same_shape_def)
  have d: "\<forall>c < length (bufChannels dry). length (bufChannels dry ! c) = bufNumSamples dry"
    using assms(5) by (simp add: buffer_ok_def list_all_length)
  have w: "\<forall>c < length (bufChannels b). length (bufChannels b ! c) = bufNumSamples dry"
    using okb n by (simp add: buffer_ok_def list_all_length)
  obtain o' m' where 1: "fold (mixChannel prm dry (bufNumSamples dry)) [0..<length (bufChannels dry)] (ou, m, b)
      = (o', m', b\<lparr>bufChannels := take (length (bufChannels dry)) (bufChannels dry)
                                     @ drop (length (bufChannels dry)) (bufChannels b)\<rparr>)"
    using fold_mixChannel_dry [OF assms(1) l d _ assms(2,3) w, of "length (bufChannels dry)" ou]
    by auto
  have "b\<lparr>bufChannels := bufChannels dry\<rparr> = dry" using n by simp
  then show ?thesis using 1 l by (simp add: mixLoop_def getNumChannels_def)
qed

subsection \<open>processBlock\<close>

lemma processBlock_unfold:
  assumes "clearUnusedChannels (totalNumInputChannels p) (totalNumOutputChannels p) buffer0 = Some buffer"
    and "getNumChannels buffer \<noteq> 0"
    and "p2 = updateComponents J (skipSmoothing (getNumSamples buffer0)
                (measureInputLevel buffer (getNumSamples buffer0) (updateTargets prm p)))"
    and "compressLoop (gainComputer p2) [0..<getNumSamples buffer0]
           (sidechainDetector p2, envelopeFollower p2,
            snd (ts_processBlock J (tubeSaturation p2) buffer), 0) = Some (sd, ef, buffer2, peakGR)"
    and "p3 = p2\<lparr>tubeSaturation := fst (ts_processBlock J (tubeSaturation p2) buffer),
                 sidechainDetector := sd, envelopeFollower := ef, gainReduction := - peakGR\<rparr>"
    and "mixLoop prm buffer (getNumSamples buffer0)
           (outputSmoothed p3, mixSmoothed p3,
            snd (tc_processBlock J (transformerColoration p3) buffer2)) = (outputSm, mixSm, buffer4)"
  shows "processBlock J prm p buffer0 =
           Some (measureOutputLevel buffer4 (getNumSamples buffer0)
                   (p3\<lparr>transformerColoration :=
                          fst (tc_processBlock J (transformerColoration p3) buffer2),
                       outputSmoothed := outputSm, mixSmoothed := mixSm\<rparr>), buffer4)"
  using assms by (simp add: processBlock_def Let_def split_def)

lemma compressLoop_fold_min:
  "compressLoop g samples (sd, ef, b, pk) = Some (sd1, ef1, b1, pk1) \<Longrightarrow>
     pk1 = fold min (compressGains g samples (sd, ef, b, pk)) pk"
proof (induction samples arbitrary: sd ef b pk)
  case Nil
  then show ?case by simp
next
  case (Cons s samples)
  obtain sd2 ef2 b2 pk2 where 1: "compressSample g s (sd, ef, b, pk) = Some (sd2, ef2, b2, pk2)"
    and 2: "compressLoop g samples (sd2, ef2, b2, pk2) = Some (sd1, ef1, b1, pk1)"
    using Cons.prems by (auto split: option.splits)
  obtain sd3 ef3 grDb where 3: "sampleGainReduction g s sd ef b = Some (sd3, ef3, grDb)"
    using 1 by (auto simp add: compressSample_def split: option.splits)
  have pk2: "pk2 = min grDb pk"
    using 1 3 by (auto simp add: compressSample_def Let_def min_def)
  have "pk1 = fold min (compressGains g samples (sd2, ef2, b2, pk2)) pk2"
    by (rule Cons.IH [OF 2])
  then show ?case using 1 3 pk2 by simp
qed

lemma length_compressGains:
  "sd_indexed sd \<Longrightarrow> length (compressGains g samples (sd, ef, b, pk)) = length samples"
proof (induction samples arbitrary: sd ef b pk)
  case Nil
  then show ?case by simp
next
  case (Cons s samples)
  obtain sd1 ef1 b1 pk1 where 1: "compressSample g s (sd, ef, b, pk) = Some (sd1, ef1, b1, pk1)"
    and i1: "sd_indexed sd1"
    using compressSample_Some [OF Cons.prems] by blast
  obtain sd3 ef3 grDb where 3: "sampleGainReduction g s sd ef b = Some (sd3, ef3, grDb)"
    using 1 by (auto simp add: compressSample_def split: option.splits)
  show ?case using 1 3 Cons.IH [OF i1] by simp
qed

lemma fold_min_Min: "fold min xs (a::real) = Min (insert a (set xs))"
  using Min.set_eq_fold [of a xs] by simp

lemma components_p2:
  "sidechainDetector (updateComponents J (skipSmoothing n (measureInputLevel b n (updateTargets prm p))))
     = sidechainDetector p"
  "totalNumInputChannels (updateComponents J (skipSmoothing n (measureInputLevel b n (updateTargets prm p))))
     = totalNumInputChannels p"
  "totalNumOutputChannels (updateComponents J (skipSmoothing n (measureInputLevel b n (updateTargets prm p))))
     = totalNumOutputChannels p"
  "inputLevelL (updateComponents J (skipSmoothing n (measureInputLevel b n (updateTargets prm p))))
     = gainToDecibels (getMagnitude b 0 0 n) (- 60)"
  "inputLevelR (updateComponents J (skipSmoothing n (measureInputLevel b n (updateTargets prm p))))
     = gainToDecibels (if getNumChannels b > 1 then getMagnitude b 1 0 n else getMagnitude b 0 0 n) (- 60)"
  "mixSmoothed (updateComponents J (skipSmoothing n (measureInputLevel b n (updateTargets prm p))))
     = setTargetValue (mixParam prm) (mixSmoothed p)"
  "outputSmoothed (updateComponents J (skipSmoothing n (measureInputLevel b n (updateTargets prm p))))
     = setTargetValue (outputParam prm) (outputSmoothed p)"
  by (simp_all add: updateComponents_def skipSmoothing_def measureInputLevel_def
      updateTargets_def Let_def)

lemma processBlock_result:
  assumes c: "\<not> (totalNumInputChannels p < totalNumOutputChannels p
                 \<and> getNumChannels buffer0 < totalNumOutputChannels p)"
    and n: "0 < getNumChannels buffer0"
    and i: "sd_indexed (sidechainDetector p)"
    and p2: "p2 = updateComponents J (skipSmoothing (getNumSamples buffer0)
                (measureInputLevel buffer (getNumSamples buffer0) (updateTargets prm p)))"
    and d: "dryCopy p buffer0 = Some buffer"
  shows "\<exists>sd ef buffer2 peakGR outputSm mixSm buffer4.
      compressLoop (gainComputer p2) [0..<getNumSamples buffer0]
           (sidechainDetector p2, envelopeFollower p2,
            snd (ts_processBlock J (tubeSaturation p2) buffer), 0) = Some (sd, ef, buffer2, peakGR)
    \<and> sd_indexed sd
    \<and> same_shape buffer2 (snd (ts_processBlock J (tubeSaturation p2) buffer))
    \<and> mixLoop prm buffer (getNumSamples buffer0)
           (outputSmoothed p2, mixSmoothed p2,
            snd (tc_processBlock J (transformerColoration p2) buffer2)) = (outputSm, mixSm, buffer4)
    \<and> processBlock J prm p buffer0 =
           Some (measureOutputLevel buffer4 (getNumSamples buffer0)
                   (p2\<lparr>tubeSaturation := fst (ts_processBlock J (tubeSaturation p2) buffer),
                       sidechainDetector := sd, envelopeFollower := ef, gainReduction := - peakGR,
                       transformerColoration :=
                          fst (tc_processBlock J (transformerColoration p2) buffer2),
                       outputSmoothed := outputSm, mixSmoothed := mixSm\<rparr>), buffer4)"
proof -
  have cl: "clearUnusedChannels (totalNumInputChannels p) (totalNumOutputChannels p) buffer0
              = Some buffer"
    using d by (simp add: dryCopy_def)
  have "same_shape buffer buffer0"
    using clearUnusedChannels_Some [OF c] cl by auto
  then have nc: "getNumChannels buffer \<noteq> 0" using same_shape_channels n by fastforce
  have i2: "sd_indexed (sidechainDetector p2)" using i by (simp add: p2 components_p2)
  obtain sd ef buffer2 peakGR where
    1: "compressLoop (gainComputer p2) [0..<getNumSamples buffer0]
           (sidechainDetector p2, envelopeFollower p2,
            snd (ts_processBlock J (tubeSaturation p2) buffer), 0) = Some (sd, ef, buffer2, peakGR)"
    and isd: "sd_indexed sd"
    and sh: "same_shape buffer2 (snd (ts_processBlock J (tubeSaturation p2) buffer))"
    using compressLoop_Some [OF i2] by blast
  define p3 where "p3 = p2\<lparr>tubeSaturation := fst (ts_processBlock J (tubeSaturation p2) buffer),
                 sidechainDetector := sd, envelopeFollower := ef, gainReduction := - peakGR\<rparr>"
  obtain outputSm mixSm buffer4 where
    2: "mixLoop prm buffer (getNumSamples buffer0)
           (outputSmoothed p3, mixSmoothed p3,
            snd (tc_processBlock J (transformerColoration p3) buffer2)) = (outputSm, mixSm, buffer4)"
    by (metis prod_cases3)
  have 3: "processBlock J prm p buffer0 =
           Some (measureOutputLevel buffer4 (getNumSamples buffer0)
                   (p3\<lparr>transformerColoration :=
                          fst (tc_processBlock J (transformerColoration p3) buffer2),
                       outputSmoothed := outputSm, mixSmoothed := mixSm\<rparr>), buffer4)"
    by (rule processBlock_unfold [OF cl nc p2 1 p3_def 2])
  show ?thesis using 1 isd sh 2 3 by (simp add: p3_def)
qed

lemma measureOutputLevel_fields:
  "inputLevelL (measureOutputLevel b n q) = inputLevelL q"
  "inputLevelR (measureOutputLevel b n q) = inputLevelR q"
  "gainReduction (measureOutputLevel b n q) = gainReduction q"
  "sidechainDetector (measureOutputLevel b n q) = sidechainDetector q"
  "envelopeFollower (measureOutputLevel b n q) = envelopeFollower q"
  "totalNumInputChannels (measureOutputLevel b n q) = totalNumInputChannels q"
  "totalNumOutputChannels (measureOutputLevel b n q) = totalNumOutputChannels q"
  "outputLevelL (measureOutputLevel b n q) = gainToDecibels (getMagnitude b 0 0 n) (- 60)"
  "outputLevelR (measureOutputLevel b n q)
     = gainToDecibels (if getNumChannels b > 1 then getMagnitude b 1 0 n else getMagnitude b 0 0 n) (- 60)"
  by (simp_all add: measureOutputLevel_def Let_def)

lemma dryCopy_Some:
  assumes "\<not> (totalNumInputChannels p < totalNumOutputChannels p
                 \<and> getNumChannels buffer0 < totalNumOutputChannels p)"
  shows "\<exists>buffer. dryCopy p buffer0 = Some buffer \<and> same_shape buffer buffer0"
  using clearUnusedChannels_Some [OF assms] by (simp add: dryCopy_def)

text \<open>
  Claim C9. A call of \<^verbatim>\<open>processBlock\<close> on a buffer with at least one channel (the
  detector prepared) returns, and then the four level meters are at least -60 and the
  gain reduction meter is at least 0: it is the negated minimum of 0 and the gain
  reductions of the samples of the block.
\<close>

theorem C9_meters:
  assumes "\<not> (totalNumInputChannels p < totalNumOutputChannels p
                 \<and> getNumChannels buffer0 < totalNumOutputChannels p)"
    and "0 < getNumChannels buffer0"
    and "sd_indexed (sidechainDetector p)"
  shows "\<exists>p' b'. processBlock J prm p buffer0 = Some (p', b')
      \<and> - 60 \<le> inputLevelL p' \<and> - 60 \<le> inputLevelR p'
      \<and> - 60 \<le> outputLevelL p' \<and> - 60 \<le> outputLevelR p'
      \<and> 0 \<le> gainReduction p'
      \<and> gainReduction p' = - Min (insert 0 (set (blockGainReductions J prm p buffer0)))
      \<and> length (blockGainReductions J prm p buffer0) = getNumSamples buffer0"
proof -
  obtain buffer where d: "dryCopy p buffer0 = Some buffer"
    using dryCopy_Some [OF assms(1)] by blast
  define p2 where "p2 = updateComponents J (skipSmoothing (getNumSamples buffer0)
                (measureInputLevel buffer (getNumSamples buffer0) (updateTargets prm p)))"
  define st where "st = (sidechainDetector p2, envelopeFollower p2,
            snd (ts_processBlock J (tubeSaturation p2) buffer), 0::real)"
  obtain sd ef buffer2 peakGR outputSm mixSm buffer4 where
    1: "compressLoop (gainComputer p2) [0..<getNumSamples buffer0] st = Some (sd, ef, buffer2, peakGR)"
    and 3: "processBlock J prm p buffer0 =
           Some (measureOutputLevel buffer4 (getNumSamples buffer0)
                   (p2\<lparr>tubeSaturation := fst (ts_processBlock J (tubeSaturation p2) buffer),
                       sidechainDetector := sd, envelopeFollower := ef, gainReduction := - peakGR,
                       transformerColoration :=
                          fst (tc_processBlock J (transformerColoration p2) buffer2),
                       outputSmoothed := outputSm, mixSmoothed := mixSm\<rparr>), buffer4)"
    using processBlock_result [OF assms p2_def d] unfolding st_def by blast
  have g: "blockGainReductions J prm p buffer0
             = compressGains (gainComputer p2) [0..<getNumSamples buffer0] st"
    by (simp add: blockGainReductions_def d Let_def p2_def st_def)
  have i2: "sd_indexed (sidechainDetector p2)" using assms(3) by (simp add: p2_def components_p2)
  have len: "length (blockGainReductions J prm p buffer0) = getNumSamples buffer0"
    unfolding g st_def using length_compressGains [OF i2] by simp
  have pk: "peakGR = Min (insert 0 (set (blockGainReductions J prm p buffer0)))"
    unfolding g using compressLoop_fold_min [OF 1 [unfolded st_def]]
    by (simp add: fold_min_Min st_def)
  have "peakGR \<le> 0" unfolding pk by (rule Min_le) simp_all
  then show ?thesis
    using 3 pk len
    by (simp add: measureOutputLevel_fields gainToDecibels_floor p2_def components_p2)
qed

lemma prepareToPlay_fields:
  "sidechainDetector (prepareToPlay J prm sr n p) = sd_prepare sr n (sidechainDetector p)"
  "totalNumInputChannels (prepareToPlay J prm sr n p) = totalNumInputChannels p"
  "totalNumOutputChannels (prepareToPlay J prm sr n p) = totalNumOutputChannels p"
  "mixSmoothed (prepareToPlay J prm sr n p)
     = setCurrentAndTargetValue (mixParam prm) (sv_reset sr 0.003 (mixSmoothed p))"
  by (simp_all add: prepareToPlay_def Let_def)

lemma init_channels:
  "totalNumInputChannels (FatPressorAudioProcessor_init f0) = 2"
  "totalNumOutputChannels (FatPressorAudioProcessor_init f0) = 2"
  by (simp_all add: FatPressorAudioProcessor_init_def)

theorem C9_meters_witness:
  "\<exists>p' b'. processBlock passIIR Parameters_default
              (prepareToPlay passIIR Parameters_default 44100 512 (FatPressorAudioProcessor_init ()))
              \<lparr>bufNumSamples = 1, bufChannels = [[1], [1]]\<rparr> = Some (p', b')
      \<and> - 60 \<le> inputLevelL p' \<and> - 60 \<le> outputLevelL p' \<and> 0 \<le> gainReduction p'"
proof -
  let ?p = "prepareToPlay passIIR Parameters_default 44100 512 (FatPressorAudioProcessor_init ())"
  let ?b = "\<lparr>bufNumSamples = 1, bufChannels = [[1], [1]]\<rparr>"
  have h1: "\<not> (totalNumInputChannels ?p < totalNumOutputChannels ?p
                 \<and> getNumChannels ?b < totalNumOutputChannels ?p)"
    by (simp add: prepareToPlay_fields init_channels)
  have h2: "0 < getNumChannels ?b" by (simp add: getNumChannels_def)
  have h3: "sd_indexed (sidechainDetector ?p)"
    by (simp add: prepareToPlay_fields sd_indexed_sd_prepare)
  show ?thesis using C9_meters [OF h1 h2 h3, of passIIR Parameters_default] by blast
qed

lemma setTargetValue_same: "target v = x \<Longrightarrow> setTargetValue x v = v"
  by (simp add: setTargetValue_def)

text \<open>
  Claim C7. With the mix parameter at 0 and the mix smoother at rest at 0 (target 0, no
  ramp running), \<^verbatim>\<open>processBlock\<close> returns the dry copy it took of the buffer, sample
  for sample and channel for channel, whatever the other parameters and the state of the
  processor are; the dry copy is the input buffer when there is no output channel beyond
  the input channels.
\<close>

theorem C7_mix_zero_is_dry:
  assumes "iir_in_place J"
    and "buffer_ok buffer0"
    and "\<not> (totalNumInputChannels p < totalNumOutputChannels p
                 \<and> getNumChannels buffer0 < totalNumOutputChannels p)"
    and "0 < getNumChannels buffer0"
    and "sd_indexed (sidechainDetector p)"
    and "mixParam prm = 0"
    and "target (mixSmoothed p) = 0"
    and "\<not> isSmoothing (mixSmoothed p)"
  shows "\<exists>p' dry. dryCopy p buffer0 = Some dry
           \<and> processBlock J prm p buffer0 = Some (p', dry)
           \<and> (totalNumOutputChannels p \<le> totalNumInputChannels p \<longrightarrow> dry = buffer0)"
proof -
  obtain buffer where d: "dryCopy p buffer0 = Some buffer" and sh0: "same_shape buffer buffer0"
    using dryCopy_Some [OF assms(3)] by blast
  have ok: "buffer_ok buffer" by (rule same_shape_buffer_ok [OF sh0 assms(2)])
  have ns: "getNumSamples buffer0 = bufNumSamples buffer"
    using sh0 by (simp add: same_shape_def getNumSamples_def)
  define p2 where "p2 = updateComponents J (skipSmoothing (getNumSamples buffer0)
                (measureInputLevel buffer (getNumSamples buffer0) (updateTargets prm p)))"
  obtain sd ef buffer2 peakGR outputSm mixSm buffer4 where
    sh2: "same_shape buffer2 (snd (ts_processBlock J (tubeSaturation p2) buffer))"
    and 2: "mixLoop prm buffer (getNumSamples buffer0)
           (outputSmoothed p2, mixSmoothed p2,
            snd (tc_processBlock J (transformerColoration p2) buffer2)) = (outputSm, mixSm, buffer4)"
    and 3: "processBlock J prm p buffer0 =
           Some (measureOutputLevel buffer4 (getNumSamples buffer0)
                   (p2\<lparr>tubeSaturation := fst (ts_processBlock J (tubeSaturation p2) buffer),
                       sidechainDetector := sd, envelopeFollower := ef, gainReduction := - peakGR,
                       transformerColoration :=
                          fst (tc_processBlock J (transformerColoration p2) buffer2),
                       outputSmoothed := outputSm, mixSmoothed := mixSm\<rparr>), buffer4)"
    using processBlock_result [OF assms(3,4,5) p2_def d] by blast
  have sh3: "same_shape (snd (tc_processBlock J (transformerColoration p2) buffer2)) buffer"
    using same_shape_tc_processBlock [OF assms(1)] sh2 same_shape_ts_processBlock [OF assms(1) ok]
    by (blast intro: same_shape_trans)
  have m: "mixSmoothed p2 = mixSmoothed p"
    using assms(6,7) by (simp add: p2_def components_p2 setTargetValue_same)
  have cd: "countdown (mixSmoothed p2) \<le> 0" using assms(8) by (simp add: m isSmoothing_def)
  have tg: "target (mixSmoothed p2) = 0" using assms(7) by (simp add: m)
  obtain o' m' where "mixLoop prm buffer (bufNumSamples buffer)
           (outputSmoothed p2, mixSmoothed p2,
            snd (tc_processBlock J (transformerColoration p2) buffer2)) = (o', m', buffer)"
    using mixLoop_dry [OF assms(6) cd tg sh3 ok] by blast
  then have b4: "buffer4 = buffer" using 2 by (simp add: ns)
  have "totalNumOutputChannels p \<le> totalNumInputChannels p \<longrightarrow> buffer = buffer0"
    using d by (auto simp add: dryCopy_def clearUnusedChannels_none_unused)
  then show ?thesis using d 3 b4 by simp
qed

theorem C7_mix_zero_is_dry_witness:
  "\<exists>p'. processBlock passIIR (Parameters_default\<lparr>mixParam := 0\<rparr>)
            (prepareToPlay passIIR (Parameters_default\<lparr>mixParam := 0\<rparr>) 44100 512
               (FatPressorAudioProcessor_init ()))
            \<lparr>bufNumSamples = 2, bufChannels = [[1, - 1 / 2], [1 / 4, 3 / 4]]\<rparr>
          = Some (p', \<lparr>bufNumSamples = 2, bufChannels = [[1, - 1 / 2], [1 / 4, 3 / 4]]\<rparr>)"
proof -
  let ?prm = "Parameters_default\<lparr>mixParam := 0\<rparr>"
  let ?p = "prepareToPlay passIIR ?prm 44100 512 (FatPressorAudioProcessor_init ())"
  let ?b = "\<lparr>bufNumSamples = 2, bufChannels = [[1, - 1 / 2], [1 / 4, 3 / 4]]\<rparr>"
  have h1: "iir_in_place passIIR" by (simp add: iir_in_place_def passIIR_def)
  have h2: "buffer_ok ?b" by (simp add: buffer_ok_def)
  have h3: "\<not> (totalNumInputChannels ?p < totalNumOutputChannels ?p
                 \<and> getNumChannels ?b < totalNumOutputChannels ?p)"
    by (simp add: prepareToPlay_fields init_channels)
  have h4: "0 < getNumChannels ?b" by (simp add: getNumChannels_def)
  have h5: "sd_indexed (sidechainDetector ?p)"
    by (simp add: prepareToPlay_fields sd_indexed_sd_prepare)
  have h6: "mixParam ?prm = 0" by simp
  have h7: "target (mixSmoothed ?p) = 0"
    by (simp add: prepareToPlay_fields setCurrentAndTargetValue_def)
  have h8: "\<not> isSmoothing (mixSmoothed ?p)"
    by (simp add: prepareToPlay_fields setCurrentAndTargetValue_def isSmoothing_def)
  have io: "totalNumOutputChannels ?p \<le> totalNumInputChannels ?p"
    by (simp add: prepareToPlay_fields init_channels)
  show ?thesis using C7_mix_zero_is_dry [OF h1 h2 h3 h4 h5 h6 h7 h8] io by blast
qed

subsection \<open>A block of zero samples\<close>

lemma processBlock_input_meter:
  assumes "\<not> (totalNumInputChannels p < totalNumOutputChannels p
                 \<and> getNumChannels buffer0 < totalNumOutputChannels p)"
    and "0 < getNumChannels buffer0"
    and "sd_indexed (sidechainDetector p)"
    and "dryCopy p buffer0 = Some buffer"
  shows "\<exists>p' b'. processBlock J prm p buffer0 = Some (p', b')
      \<and> inputLevelL p' = gainToDecibels (getMagnitude buffer 0 0 (getNumSamples buffer0)) (- 60)
      \<and> sd_indexed (sidechainDetector p')
      \<and> totalNumInputChannels p' = totalNumInputChannels p
      \<and> totalNumOutputChannels p' = totalNumOutputChannels p"
proof -
  define p2 where "p2 = updateComponents J (skipSmoothing (getNumSamples buffer0)
                (measureInputLevel buffer (getNumSamples buffer0) (updateTargets prm p)))"
  obtain sd ef buffer2 peakGR outputSm mixSm buffer4 where
    isd: "sd_indexed sd"
    and 3: "processBlock J prm p buffer0 =
           Some (measureOutputLevel buffer4 (getNumSamples buffer0)
                   (p2\<lparr>tubeSaturation := fst (ts_processBlock J (tubeSaturation p2) buffer),
                       sidechainDetector := sd, envelopeFollower := ef, gainReduction := - peakGR,
                       transformerColoration :=
                          fst (tc_processBlock J (transformerColoration p2) buffer2),
                       outputSmoothed := outputSm, mixSmoothed := mixSm\<rparr>), buffer4)"
    using processBlock_result [OF assms(1,2,3) p2_def assms(4)] by blast
  show ?thesis using 3 isd
    by (simp add: measureOutputLevel_fields p2_def components_p2)
qed

lemma same_shape_zero:
  assumes "same_shape a b" and "buffer_ok b" and "bufNumSamples b = 0"
  shows "a = b"
proof -
  have l: "length (bufChannels a) = length (bufChannels b)"
    using same_shape_channels [OF assms(1)] by (simp add: getNumChannels_def)
  have ml: "map length (bufChannels a) = map length (bufChannels b)"
    using assms(1) by (simp add: same_shape_def)
  have "bufChannels a = bufChannels b"
  proof (rule nth_equalityI [OF l])
    fix i assume i: "i < length (bufChannels a)"
    then have "length (bufChannels b ! i) = 0"
      using assms(2,3) l by (simp add: buffer_ok_def list_all_length)
    moreover have "length (bufChannels a ! i) = length (bufChannels b ! i)"
      using ml i l by (metis nth_map)
    ultimately show "bufChannels a ! i = bufChannels b ! i" by simp
  qed
  moreover have "bufNumSamples a = bufNumSamples b" using assms(1) by (simp add: same_shape_def)
  ultimately show ?thesis by simp
qed

lemma setCurrentAndTargetValue_idem:
  "setCurrentAndTargetValue x (setCurrentAndTargetValue x v) = setCurrentAndTargetValue x v"
  by (simp add: setCurrentAndTargetValue_def)

lemma mixChannel_zero:
  "mixChannel prm dry 0 c (ou, m, b)
     = (setCurrentAndTargetValue (outputParam prm) ou,
        setCurrentAndTargetValue (mixParam prm) m, b)"
  by (simp add: mixChannel_def Let_def)

lemma fold_mixChannel_zero:
  "fold (mixChannel prm dry 0) [0..<Suc k] (ou, m, b)
     = (setCurrentAndTargetValue (outputParam prm) ou,
        setCurrentAndTargetValue (mixParam prm) m, b)"
  by (induction k) (simp_all add: mixChannel_zero setCurrentAndTargetValue_idem)

lemma mixLoop_zero:
  assumes "0 < getNumChannels b"
  shows "mixLoop prm dry 0 (ou, m, b)
     = (setCurrentAndTargetValue (outputParam prm) ou,
        setCurrentAndTargetValue (mixParam prm) m, b)"
proof -
  obtain k where "getNumChannels b = Suc k" using assms by (cases "getNumChannels b") simp_all
  then show ?thesis using fold_mixChannel_zero [of prm dry k ou m b] by (simp add: mixLoop_def)
qed

lemma settled_at_fixed:
  assumes "settled_at x v"
  shows "setTargetValue x v = v" and "skip 0 v = v" and "setCurrentAndTargetValue x v = v"
proof -
  have f: "currentValue v = x" "target v = x" "countdown v = 0"
    using assms by (simp_all add: settled_at_def)
  show "setTargetValue x v = v" using f by (simp add: setTargetValue_def)
  show c: "setCurrentAndTargetValue x v = v"
    using f by (cases v) (simp add: setCurrentAndTargetValue_def)
  show "skip 0 v = v" using f c by (simp add: skip_def)
qed

lemma target_setTargetValue: "target (setTargetValue x v) = x"
  by (simp add: setTargetValue_def setCurrentAndTargetValue_def Let_def)

lemma target_skip: "target (skip n v) = target v"
  by (simp add: skip_def setCurrentAndTargetValue_def)

lemma settled_at_setCurrentAndTargetValue: "settled_at x (setCurrentAndTargetValue x v)"
  by (simp add: settled_at_def setCurrentAndTargetValue_def)

lemma smoothers_p2:
  "thresholdSmoothed (updateComponents J (skipSmoothing n (measureInputLevel b n (updateTargets prm p))))
     = skip n (setTargetValue (thresholdParam prm) (thresholdSmoothed p))"
  "ratioSmoothed (updateComponents J (skipSmoothing n (measureInputLevel b n (updateTargets prm p))))
     = skip n (setTargetValue (ratioParam prm) (ratioSmoothed p))"
  "attackSmoothed (updateComponents J (skipSmoothing n (measureInputLevel b n (updateTargets prm p))))
     = skip n (setTargetValue (attackParam prm) (attackSmoothed p))"
  "releaseSmoothed (updateComponents J (skipSmoothing n (measureInputLevel b n (updateTargets prm p))))
     = skip n (setTargetValue (releaseParam prm) (releaseSmoothed p))"
  "fatSmoothed (updateComponents J (skipSmoothing n (measureInputLevel b n (updateTargets prm p))))
     = skip n (setTargetValue (fatParam prm) (fatSmoothed p))"
  by (simp_all add: updateComponents_def skipSmoothing_def measureInputLevel_def
      updateTargets_def Let_def)

lemma envelopeFollower_p2:
  "envelope (envelopeFollower (updateComponents J q)) = envelope (envelopeFollower q)"
  "peakGainReduction (envelopeFollower (updateComponents J q)) = peakGainReduction (envelopeFollower q)"
  "inSlowRelease (envelopeFollower (updateComponents J q)) = inSlowRelease (envelopeFollower q)"
  by (simp_all add: updateComponents_def Let_def setReleaseMs_def setAttackMs_def
      ef_updateCoefficients_def)

lemma envelopeFollower_before_components:
  "envelopeFollower (skipSmoothing n (measureInputLevel b n (updateTargets prm p))) = envelopeFollower p"
  by (simp add: skipSmoothing_def measureInputLevel_def updateTargets_def Let_def)

text \<open>
  Claim C6, as the code has it. A call of \<^verbatim>\<open>processBlock\<close> on a buffer of zero
  samples (and at least one channel) returns, with the buffer, the detector and the
  envelope, recorded peak and release stage of the follower unchanged. It overwrites the
  five meters: the level meters with -60, the gain reduction with 0. After the call the
  target of each of the seven smoothers is the value of its parameter, and the output and
  mix smoothers are at rest there; the smoothers are unchanged when each of them was at
  rest at the value of its parameter.
\<close>

theorem C6_zero_samples:
  assumes "iir_in_place J"
    and "buffer_ok buffer0"
    and "getNumSamples buffer0 = 0"
    and "0 < getNumChannels buffer0"
    and "\<not> (totalNumInputChannels p < totalNumOutputChannels p
                 \<and> getNumChannels buffer0 < totalNumOutputChannels p)"
  shows "\<exists>p'. processBlock J prm p buffer0 = Some (p', buffer0)
      \<and> sidechainDetector p' = sidechainDetector p
      \<and> envelope (envelopeFollower p') = envelope (envelopeFollower p)
      \<and> peakGainReduction (envelopeFollower p') = peakGainReduction (envelopeFollower p)
      \<and> inSlowRelease (envelopeFollower p') = inSlowRelease (envelopeFollower p)
      \<and> inputLevelL p' = - 60 \<and> inputLevelR p' = - 60
      \<and> outputLevelL p' = - 60 \<and> outputLevelR p' = - 60
      \<and> gainReduction p' = 0
      \<and> target (thresholdSmoothed p') = thresholdParam prm
      \<and> target (ratioSmoothed p') = ratioParam prm
      \<and> target (attackSmoothed p') = attackParam prm
      \<and> target (releaseSmoothed p') = releaseParam prm
      \<and> target (fatSmoothed p') = fatParam prm
      \<and> settled_at (outputParam prm) (outputSmoothed p')
      \<and> settled_at (mixParam prm) (mixSmoothed p')
      \<and> (smoothers_settled prm p \<longrightarrow>
            thresholdSmoothed p' = thresholdSmoothed p \<and> ratioSmoothed p' = ratioSmoothed p
          \<and> attackSmoothed p' = attackSmoothed p \<and> releaseSmoothed p' = releaseSmoothed p
          \<and> fatSmoothed p' = fatSmoothed p \<and> outputSmoothed p' = outputSmoothed p
          \<and> mixSmoothed p' = mixSmoothed p)"
proof -
  have n0: "bufNumSamples buffer0 = 0" using assms(3) by (simp add: getNumSamples_def)
  obtain buffer where d: "dryCopy p buffer0 = Some buffer" and sh0: "same_shape buffer buffer0"
    using dryCopy_Some [OF assms(5)] by blast
  have b0: "buffer = buffer0" by (rule same_shape_zero [OF sh0 assms(2) n0])
  have cl: "clearUnusedChannels (totalNumInputChannels p) (totalNumOutputChannels p) buffer0
              = Some buffer0"
    using d b0 by (simp add: dryCopy_def)
  have nc: "getNumChannels buffer0 \<noteq> 0" using assms(4) by simp
  define p2 where "p2 = updateComponents J (skipSmoothing (getNumSamples buffer0)
                (measureInputLevel buffer0 (getNumSamples buffer0) (updateTargets prm p)))"
  have b1: "snd (ts_processBlock J (tubeSaturation p2) buffer0) = buffer0"
    by (rule same_shape_zero [OF same_shape_ts_processBlock [OF assms(1,2)] assms(2) n0])
  have 1: "compressLoop (gainComputer p2) [0..<getNumSamples buffer0]
           (sidechainDetector p2, envelopeFollower p2,
            snd (ts_processBlock J (tubeSaturation p2) buffer0), 0)
         = Some (sidechainDetector p2, envelopeFollower p2, buffer0, 0)"
    by (simp add: assms(3) b1)
  define p3 where "p3 = p2\<lparr>tubeSaturation := fst (ts_processBlock J (tubeSaturation p2) buffer0),
                 sidechainDetector := sidechainDetector p2, envelopeFollower := envelopeFollower p2,
                 gainReduction := - 0\<rparr>"
  have b3: "snd (tc_processBlock J (transformerColoration p3) buffer0) = buffer0"
    by (rule same_shape_zero [OF same_shape_tc_processBlock [OF assms(1)] assms(2) n0])
  have 2: "mixLoop prm buffer0 (getNumSamples buffer0)
           (outputSmoothed p3, mixSmoothed p3,
            snd (tc_processBlock J (transformerColoration p3) buffer0))
         = (setCurrentAndTargetValue (outputParam prm) (outputSmoothed p3),
            setCurrentAndTargetValue (mixParam prm) (mixSmoothed p3), buffer0)"
    unfolding b3 assms(3) by (rule mixLoop_zero [OF assms(4)])
  define p' where "p' = measureOutputLevel buffer0 (getNumSamples buffer0)
                   (p3\<lparr>transformerColoration :=
                          fst (tc_processBlock J (transformerColoration p3) buffer0),
                       outputSmoothed := setCurrentAndTargetValue (outputParam prm) (outputSmoothed p3),
                       mixSmoothed := setCurrentAndTargetValue (mixParam prm) (mixSmoothed p3)\<rparr>)"
  have 3: "processBlock J prm p buffer0 = Some (p', buffer0)"
    unfolding p'_def by (rule processBlock_unfold [OF cl nc p2_def 1 p3_def 2])
  have sd: "sidechainDetector p' = sidechainDetector p"
    by (simp add: p'_def p3_def p2_def measureOutputLevel_fields components_p2)
  have ef: "envelopeFollower p' = envelopeFollower p2"
    by (simp add: p'_def p3_def measureOutputLevel_fields)
  have e1: "envelope (envelopeFollower p') = envelope (envelopeFollower p)"
    and e2: "peakGainReduction (envelopeFollower p') = peakGainReduction (envelopeFollower p)"
    and e3: "inSlowRelease (envelopeFollower p') = inSlowRelease (envelopeFollower p)"
    unfolding ef p2_def
    by (simp_all add: envelopeFollower_p2 envelopeFollower_before_components)
  have mi: "inputLevelL p' = - 60" "inputLevelR p' = - 60"
    by (simp_all add: p'_def p3_def p2_def measureOutputLevel_fields components_p2 assms(3)
        getMagnitude_0 gainToDecibels_0)
  have mo: "outputLevelL p' = - 60" "outputLevelR p' = - 60"
    by (simp_all add: p'_def measureOutputLevel_fields assms(3) getMagnitude_0 gainToDecibels_0)
  have gr: "gainReduction p' = 0"
    by (simp add: p'_def p3_def measureOutputLevel_fields)
  have sm: "thresholdSmoothed p' = thresholdSmoothed p \<and> ratioSmoothed p' = ratioSmoothed p
          \<and> attackSmoothed p' = attackSmoothed p \<and> releaseSmoothed p' = releaseSmoothed p
          \<and> fatSmoothed p' = fatSmoothed p \<and> outputSmoothed p' = outputSmoothed p
          \<and> mixSmoothed p' = mixSmoothed p" if s: "smoothers_settled prm p"
  proof -
    have t: "settled_at (thresholdParam prm) (thresholdSmoothed p)"
      and r: "settled_at (ratioParam prm) (ratioSmoothed p)"
      and a: "settled_at (attackParam prm) (attackSmoothed p)"
      and l: "settled_at (releaseParam prm) (releaseSmoothed p)"
      and f: "settled_at (fatParam prm) (fatSmoothed p)"
      and ou: "settled_at (outputParam prm) (outputSmoothed p)"
      and m: "settled_at (mixParam prm) (mixSmoothed p)"
      using s by (simp_all add: smoothers_settled_def)
    have "thresholdSmoothed p' = thresholdSmoothed p"
      by (simp add: p'_def p3_def p2_def measureOutputLevel_def Let_def smoothers_p2 assms(3)
          settled_at_fixed [OF t])
    moreover have "ratioSmoothed p' = ratioSmoothed p"
      by (simp add: p'_def p3_def p2_def measureOutputLevel_def Let_def smoothers_p2 assms(3)
          settled_at_fixed [OF r])
    moreover have "attackSmoothed p' = attackSmoothed p"
      by (simp add: p'_def p3_def p2_def measureOutputLevel_def Let_def smoothers_p2 assms(3)
          settled_at_fixed [OF a])
    moreover have "releaseSmoothed p' = releaseSmoothed p"
      by (simp add: p'_def p3_def p2_def measureOutputLevel_def Let_def smoothers_p2 assms(3)
          settled_at_fixed [OF l])
    moreover have "fatSmoothed p' = fatSmoothed p"
      by (simp add: p'_def p3_def p2_def measureOutputLevel_def Let_def smoothers_p2 assms(3)
          settled_at_fixed [OF f])
    moreover have "outputSmoothed p' = outputSmoothed p"
      by (simp add: p'_def p3_def p2_def measureOutputLevel_def Let_def components_p2
          settled_at_fixed [OF ou])
    moreover have "mixSmoothed p' = mixSmoothed p"
      by (simp add: p'_def p3_def p2_def measureOutputLevel_def Let_def components_p2
          settled_at_fixed [OF m])
    ultimately show ?thesis by blast
  qed
  have tg: "target (thresholdSmoothed p') = thresholdParam prm"
    "target (ratioSmoothed p') = ratioParam prm"
    "target (attackSmoothed p') = attackParam prm"
    "target (releaseSmoothed p') = releaseParam prm"
    "target (fatSmoothed p') = fatParam prm"
    by (simp_all add: p'_def p3_def p2_def measureOutputLevel_def Let_def smoothers_p2
        target_skip target_setTargetValue)
  have om: "settled_at (outputParam prm) (outputSmoothed p')"
    "settled_at (mixParam prm) (mixSmoothed p')"
    by (simp_all add: p'_def measureOutputLevel_def Let_def settled_at_setCurrentAndTargetValue)
  show ?thesis using 3 sd e1 e2 e3 mi mo gr tg om sm by blast
qed

lemma smoothers_settled_prepareToPlay:
  "smoothers_settled prm (prepareToPlay J prm sr n p)"
  by (simp add: smoothers_settled_def settled_at_def prepareToPlay_def Let_def
      setCurrentAndTargetValue_def)

theorem C6_zero_samples_witness:
  "\<exists>p'. processBlock passIIR Parameters_default
            (prepareToPlay passIIR Parameters_default 44100 512 (FatPressorAudioProcessor_init ()))
            \<lparr>bufNumSamples = 0, bufChannels = [[], []]\<rparr>
          = Some (p', \<lparr>bufNumSamples = 0, bufChannels = [[], []]\<rparr>)
      \<and> inputLevelL p' = - 60 \<and> outputLevelL p' = - 60 \<and> gainReduction p' = 0
      \<and> mixSmoothed p'
          = mixSmoothed (prepareToPlay passIIR Parameters_default 44100 512
                           (FatPressorAudioProcessor_init ()))"
proof -
  let ?p = "prepareToPlay passIIR Parameters_default 44100 512 (FatPressorAudioProcessor_init ())"
  let ?b = "\<lparr>bufNumSamples = 0, bufChannels = [[], []]\<rparr>"
  have h1: "iir_in_place passIIR" by (simp add: iir_in_place_def passIIR_def)
  have h2: "buffer_ok ?b" by (simp add: buffer_ok_def)
  have h3: "getNumSamples ?b = 0" by (simp add: getNumSamples_def)
  have h4: "0 < getNumChannels ?b" by (simp add: getNumChannels_def)
  have h5: "\<not> (totalNumInputChannels ?p < totalNumOutputChannels ?p
                 \<and> getNumChannels ?b < totalNumOutputChannels ?p)"
    by (simp add: prepareToPlay_fields init_channels)
  have s: "smoothers_settled Parameters_default ?p" by (rule smoothers_settled_prepareToPlay)
  show ?thesis using C6_zero_samples [OF h1 h2 h3 h4 h5, of Parameters_default] s by blast
qed

text \<open>
  Claim C6 as stated says that the meters keep their values. They do not: after a block
  with the samples 1 and 1 the left input meter is at 0 dB, and a following call with zero
  samples puts it at -60.
\<close>

theorem C6_meters_change:
  "processBlock passIIR Parameters_default
     (prepareToPlay passIIR Parameters_default 44100 512 (FatPressorAudioProcessor_init ()))
     \<lparr>bufNumSamples = 1, bufChannels = [[1], [1]]\<rparr> \<noteq> None
   \<and> inputLevelL (fst (the (processBlock passIIR Parameters_default
       (prepareToPlay passIIR Parameters_default 44100 512 (FatPressorAudioProcessor_init ()))
       \<lparr>bufNumSamples = 1, bufChannels = [[1], [1]]\<rparr>))) = 0
   \<and> processBlock passIIR Parameters_default
       (fst (the (processBlock passIIR Parameters_default
         (prepareToPlay passIIR Parameters_default 44100 512 (FatPressorAudioProcessor_init ()))
         \<lparr>bufNumSamples = 1, bufChannels = [[1], [1]]\<rparr>)))
       \<lparr>bufNumSamples = 0, bufChannels = [[], []]\<rparr> \<noteq> None
   \<and> inputLevelL (fst (the (processBlock passIIR Parameters_default
       (fst (the (processBlock passIIR Parameters_default
         (prepareToPlay passIIR Parameters_default 44100 512 (FatPressorAudioProcessor_init ()))
         \<lparr>bufNumSamples = 1, bufChannels = [[1], [1]]\<rparr>)))
       \<lparr>bufNumSamples = 0, bufChannels = [[], []]\<rparr>))) = - 60"
proof -
  let ?p = "prepareToPlay passIIR Parameters_default 44100 512 (FatPressorAudioProcessor_init ())"
  let ?b = "\<lparr>bufNumSamples = 1, bufChannels = [[1], [1]]\<rparr>"
  let ?z = "\<lparr>bufNumSamples = 0, bufChannels = [[], []]\<rparr>"
  have c: "\<not> (totalNumInputChannels ?p < totalNumOutputChannels ?p
                 \<and> getNumChannels ?b < totalNumOutputChannels ?p)"
    by (simp add: prepareToPlay_fields init_channels)
  have n: "0 < getNumChannels ?b" by (simp add: getNumChannels_def)
  have i: "sd_indexed (sidechainDetector ?p)"
    by (simp add: prepareToPlay_fields sd_indexed_sd_prepare)
  have d: "dryCopy ?p ?b = Some ?b"
    by (simp add: dryCopy_def clearUnusedChannels_none_unused prepareToPlay_fields init_channels)
  obtain p1 b1 where 1: "processBlock passIIR Parameters_default ?p ?b = Some (p1, b1)"
    and l1: "inputLevelL p1 = gainToDecibels (getMagnitude ?b 0 0 (getNumSamples ?b)) (- 60)"
    and i1: "sd_indexed (sidechainDetector p1)"
    and ci: "totalNumInputChannels p1 = totalNumInputChannels ?p"
    and co: "totalNumOutputChannels p1 = totalNumOutputChannels ?p"
    using processBlock_input_meter [OF c n i d] by blast
  have m1: "getMagnitude ?b 0 0 (getNumSamples ?b) = 1"
    by (simp add: getMagnitude_def getNumSamples_def)
  have v1: "inputLevelL p1 = 0" unfolding l1 m1 by (simp add: gainToDecibels_def jmax_def)
  have io: "totalNumInputChannels p1 = 2" "totalNumOutputChannels p1 = 2"
    by (simp_all add: ci co prepareToPlay_fields init_channels)
  have c2: "\<not> (totalNumInputChannels p1 < totalNumOutputChannels p1
                 \<and> getNumChannels ?z < totalNumOutputChannels p1)"
    by (simp add: io)
  have n2: "0 < getNumChannels ?z" by (simp add: getNumChannels_def)
  have d2: "dryCopy p1 ?z = Some ?z"
    by (simp add: dryCopy_def clearUnusedChannels_none_unused io)
  obtain p2 b2 where 2: "processBlock passIIR Parameters_default p1 ?z = Some (p2, b2)"
    and l2: "inputLevelL p2 = gainToDecibels (getMagnitude ?z 0 0 (getNumSamples ?z)) (- 60)"
    using processBlock_input_meter [OF c2 n2 i1 d2] by blast
  have v2: "inputLevelL p2 = - 60"
    unfolding l2 by (simp add: getNumSamples_def getMagnitude_0 gainToDecibels_0)
  show ?thesis using 2 v1 v2 unfolding 1 by simp
qed

section \<open>Properties of the chain in binary32 arithmetic\<close>

subsection \<open>Binary32 arithmetic\<close>

lemma rne_of_int: "rne (of_int z) = z"
  by (simp add: rne_def)

lemma ulp32_pos: "0 < ulp32 x"
  by (simp add: ulp32_def)


lemma round32_0: "round32 0 = 0"
  by (simp add: round32_def)


lemma floor_log2_less:
  assumes "0 < x" and "x < 2 powr of_int n"
  shows "\<lfloor>log 2 x\<rfloor> < n"
proof -
  have "log 2 x < of_int n" using assms by (simp add: log_less_iff)
  then show ?thesis by (simp add: floor_less_iff)
qed

lemma round32_representable:
  assumes m: "\<bar>m\<bar> < 2 ^ 24" and k: "- 149 \<le> k"
  shows "round32 (of_int m * 2 powr of_int k) = of_int m * 2 powr of_int k"
proof -
  consider "m = 0" | "m \<noteq> 0" by blast
  then show ?thesis
  proof cases
    case 1
    then show ?thesis by (simp add: round32_0)
  next
    case 2
    let ?x = "of_int m * 2 powr of_int k :: real"
    have x0: "?x \<noteq> 0" using 2 by simp
    have ax: "\<bar>?x\<bar> = of_int \<bar>m\<bar> * 2 powr of_int k" by (simp add: abs_mult)
    have "of_int \<bar>m\<bar> < (2 ^ 24 :: real)" using m by (metis of_int_less_iff of_int_numeral of_int_power)
    then have "\<bar>?x\<bar> < 2 ^ 24 * 2 powr of_int k" unfolding ax by simp
    also have "\<dots> = 2 powr of_int (24 + k)"
      by (simp add: powr_add powr_realpow [symmetric])
    finally have lt: "\<bar>?x\<bar> < 2 powr of_int (24 + k)" .
    have "\<lfloor>log 2 \<bar>?x\<bar>\<rfloor> < 24 + k"
      by (rule floor_log2_less [OF _ lt]) (use x0 in simp)
    then have e: "max \<lfloor>log 2 \<bar>?x\<bar>\<rfloor> (- 126) \<le> 23 + k" using k by simp
    define e where "e = max \<lfloor>log 2 \<bar>?x\<bar>\<rfloor> (- 126)"
    define n where "n = nat (k + 23 - e)"
    have n: "of_int (int n) = of_int k + 23 - (of_int e :: real)"
      using e by (simp add: n_def e_def)
    have u: "ulp32 ?x = 2 powr (of_int e - 23)" by (simp add: ulp32_def e_def)
    have "2 powr of_int k / 2 powr (of_int e - 23) = 2 powr (of_int k + 23 - of_int e :: real)"
      by (simp add: powr_diff [symmetric] algebra_simps)
    also have "\<dots> = 2 powr (of_int (int n))" by (simp only: n)
    also have "\<dots> = 2 ^ n" by (simp add: powr_realpow)
    finally have "2 powr of_int k / 2 powr (of_int e - 23) = (2 ^ n :: real)" .
    then have "of_int m * (2 powr of_int k / 2 powr (of_int e - 23)) = of_int m * (2 ^ n :: real)"
      by simp
    then have q: "?x / ulp32 ?x = of_int (m * 2 ^ n)" by (simp add: u)
    have "round32 ?x = of_int (m * 2 ^ n) * ulp32 ?x"
      using x0 by (simp only: round32_def q rne_of_int if_False)
    also have "\<dots> = ?x" using q [symmetric] ulp32_pos [of ?x] by simp
    finally show ?thesis .
  qed
qed

lemma round32_of_int: "\<bar>m\<bar> < 2 ^ 24 \<Longrightarrow> round32 (of_int m) = of_int m"
  using round32_representable [of m 0] by simp

lemma round32_1: "round32 1 = 1" using round32_of_int [of 1] by simp
lemma round32_2: "round32 2 = 2" using round32_of_int [of 2] by simp
lemma round32_half: "round32 (1 / 2) = 1 / 2"
  using round32_representable [of 1 "- 1"] by (simp add: powr_minus)






lemma largest32_eq: "largest32 = 16777215 * 2 ^ 104"
  by (simp add: largest32_def)

lemma fround_representable:
  assumes m: "\<bar>m\<bar> < 2 ^ 24" and k: "- 149 \<le> k" and k2: "k \<le> 104"
  shows "fround (of_int m * 2 powr of_int k) = Finite (of_int m * 2 powr of_int k)"
proof -
  have "\<bar>m\<bar> \<le> 16777215" using m by simp
  then have a: "of_int \<bar>m\<bar> \<le> (16777215 :: real)" by (metis of_int_le_iff of_int_numeral)
  have "2 powr of_int k \<le> (2 powr of_int 104 :: real)"
    by (rule powr_mono) (use k2 in simp_all)
  also have "\<dots> = 2 powr (real 104)" by simp
  also have "\<dots> = 2 ^ 104" by (simp only: powr_realpow zero_less_numeral)
  finally have b: "2 powr of_int k \<le> (2 ^ 104 :: real)" .
  have "of_int \<bar>m\<bar> * 2 powr of_int k \<le> (16777215 * 2 ^ 104 :: real)"
    using a b by (intro mult_mono) simp_all
  then have "\<bar>of_int m * 2 powr of_int k :: real\<bar> \<le> largest32"
    by (simp add: largest32_eq abs_mult)
  then show ?thesis
    by (simp add: fround_def Let_def round32_representable [OF m k])
qed

lemma fround_of_int: "\<bar>m\<bar> < 2 ^ 24 \<Longrightarrow> fround (of_int m) = Finite (of_int m)"
  using fround_representable [of m 0] by simp

lemma fround_3: "fround 3 = Finite 3" using fround_of_int [of 3] by simp







subsection \<open>SidechainDetector, binary32\<close>















end
